theory Spec2Isabelle
  imports Main
begin

section \<open>Files, directories and archives\<close>

text \<open>
  The working directory of a job is a tree. A file is either a valid zip archive (with its
  members, themselves a tree) or any other file; \<open>zipfile.ZipFile\<close> raises on the
  latter. A directory's entries are kept as a list: its order is the order in which
  \<open>os.walk\<close> lists them. An entry name is one path segment.
\<close>

datatype node = Plain | Archive "(string \<times> node) list" | Dir "(string \<times> node) list"

type_synonym content = "(string \<times> node) list"

type_synonym path = "string list"

fun is_dir :: "node \<Rightarrow> bool" where
  "is_dir (Dir _) = True"
| "is_dir _ = False"

text \<open>Writing an entry replaces the entry of that name where it stands, or adds it last.\<close>

fun put :: "string \<Rightarrow> node \<Rightarrow> content \<Rightarrow> content" where
  "put n x [] = [(n, x)]"
| "put n x ((m, y) # c) = (if m = n then (n, x) # c else (m, y) # put n x c)"

definition remove_entry :: "string \<Rightarrow> content \<Rightarrow> content" where
  "remove_entry n c = filter (\<lambda>e. fst e \<noteq> n) c"

text \<open>
  \<open>ZipFile.extractall\<close>: the members are written one after the other into the
  destination. A file member overwrites a file and a directory member merges into a
  directory; a member that meets an entry of the other kind raises, and what was written
  before it stays. The flag says whether every member was written.
\<close>

fun extractall :: "content \<Rightarrow> content \<Rightarrow> content \<times> bool"
and write_member :: "content \<Rightarrow> string \<Rightarrow> node \<Rightarrow> content \<times> bool"
where
  "extractall dest [] = (dest, True)"
| "extractall dest ((n, x) # ms) =
     (case write_member dest n x of
        (dest', True) \<Rightarrow> extractall dest' ms
      | (dest', False) \<Rightarrow> (dest', False))"
| "write_member dest n (Dir sub) =
     (case map_of dest n of
        None \<Rightarrow> (case extractall [] sub of (sub', ok) \<Rightarrow> (put n (Dir sub') dest, ok))
      | Some (Dir old) \<Rightarrow> (case extractall old sub of (sub', ok) \<Rightarrow> (put n (Dir sub') dest, ok))
      | Some _ \<Rightarrow> (dest, False))"
| "write_member dest n x =
     (case map_of dest n of Some (Dir _) \<Rightarrow> (dest, False) | _ \<Rightarrow> (put n x dest, True))"

text \<open>\<open>str.endswith\<close>.\<close>

definition endswith :: "string \<Rightarrow> string \<Rightarrow> bool" where
  "endswith s suf = (length suf \<le> length s \<and> drop (length s - length suf) s = suf)"

text \<open>What \<open>os.walk\<close> reads of a directory when it reaches it.\<close>

definition dir_names :: "content \<Rightarrow> string list" where
  "dir_names c = map fst (filter (\<lambda>e. is_dir (snd e)) c)"

definition file_names :: "content \<Rightarrow> string list" where
  "file_names c = map fst (filter (\<lambda>e. \<not> is_dir (snd e)) c)"

text \<open>
  The deepest chain of directories a tree can ever show, the directories still packed in
  its archives included.
\<close>

fun hb :: "node \<Rightarrow> nat" and hbs :: "content \<Rightarrow> nat" where
  "hb Plain = 0"
| "hb (Archive c) = hbs c"
| "hb (Dir c) = Suc (hbs c)"
| "hbs [] = 0"
| "hbs ((n, x) # c) = max (hb x) (hbs c)"

section \<open>Events\<close>

datatype level = INFO | WARNING | ERROR

datatype document = Document (doc_text: string) (doc_extra_info: "(string \<times> string) list")

datatype lc_document = LCDocument (page_content: string) (metadata: "(string \<times> string) list")

datatype object_id = Minted nat | Parsed string

datatype error =
    RequestException string
  | ValueError string
  | UnboundLocalError string
  | KeyError string
  | OSError string
  | OtherException string

fun is_request_exception :: "error \<Rightarrow> bool" where
  "is_request_exception (RequestException _) = True"
| "is_request_exception _ = False"

record chunker_args =
  chunking_strategy :: string
  max_tokens :: int
  min_tokens :: int
  duplicate_headers :: bool

text \<open>The dictionary \<open>file_data\<close>; a key that is not set is \<open>None\<close>.\<close>

record file_data =
  fd_name :: string
  fd_file :: "string option"
  fd_user :: string
  fd_tokens :: "int option"
  fd_retriever :: "string option"
  fd_id :: "object_id option"
  fd_type :: "string option"
  fd_remote_data :: "string option"
  fd_sync_frequency :: "string option"

record attachment =
  att_user :: string
  att_path :: string
  att_content :: string
  att_token_count :: int
  att_date :: nat

text \<open>The arguments of one call of \<open>remote_worker\<close>, in the order of its signature.\<close>

datatype remote_call =
  RemoteCall string string string string string string string string "string option"

text \<open>
  What a run does to the outside, in order. \<open>ZipOpened\<close> records that the
  \<open>try\<close> block of \<open>extract_zip_recursive\<close> was entered for an entry at a recursion
  depth, and \<open>RemoteWorkerCalled\<close> that \<open>remote_worker\<close> was called; the other events
  are the calls the code makes.
\<close>

datatype event =
    Log level string
  | UpdateState nat
  | ZipOpened string int
  | HttpGet file_data
  | ReaderCall path
  | LoaderCall string string
  | ChunkerCall chunker_args "document list"
  | CountTokens "lc_document list"
  | EmbedCall "lc_document list" path object_id
  | HttpPost bool file_data
  | RemoteWorkerCalled remote_call
  | InsertOne attachment

section \<open>Recursive extraction\<close>

text \<open>
  The \<open>try\<close> block of \<open>extract_zip_recursive\<close>: open the archive, extract all of it
  into the directory, then remove the archive. The archive is an entry of the directory it
  is extracted into, as at every call in this module.
\<close>

definition try_extract :: "content \<Rightarrow> string \<Rightarrow> content \<times> bool" where
  "try_extract c name =
     (case map_of c name of
        Some (Archive ms) \<Rightarrow>
          (case extractall c ms of
             (c', True) \<Rightarrow> (remove_entry name c', True)
           | (c', False) \<Rightarrow> (c', False))
      | _ \<Rightarrow> (c, False))"

text \<open>
  \<open>extract_zip_recursive\<close> and its loop over \<open>os.walk(extract_to)\<close>. The walk lists a
  directory once, when it reaches it: \<open>walk_files\<close> runs over the file names listed
  then, \<open>walk_dirs\<close> over the directory names listed then, and each subdirectory is read
  again when the walk enters it, after the nested calls may have changed it. That descent is
  not structural, so the walk carries a budget \<open>k\<close> of directory levels it may still
  enter and returns \<open>None\<close> when the budget is used up.
\<close>

function extract_zip_fuel ::
  "nat \<Rightarrow> content \<Rightarrow> string \<Rightarrow> int \<Rightarrow> int \<Rightarrow> (content \<times> event list) option"
and walk_fuel ::
  "nat \<Rightarrow> content \<Rightarrow> int \<Rightarrow> int \<Rightarrow> (content \<times> event list) option"
and walk_files ::
  "nat \<Rightarrow> content \<Rightarrow> string list \<Rightarrow> int \<Rightarrow> int \<Rightarrow> (content \<times> event list) option"
and walk_dirs ::
  "nat \<Rightarrow> content \<Rightarrow> string list \<Rightarrow> int \<Rightarrow> int \<Rightarrow> (content \<times> event list) option"
where
  "extract_zip_fuel k c name cur mx =
     (if cur > mx then Some (c, [Log WARNING ''Reached maximum recursion depth''])
      else case try_extract c name of
             (c', False) \<Rightarrow>
               Some (c', [ZipOpened name cur, Log ERROR ''Error extracting zip file''])
           | (c', True) \<Rightarrow>
               (case walk_fuel k c' cur mx of
                  None \<Rightarrow> None
                | Some (c'', es) \<Rightarrow> Some (c'', ZipOpened name cur # es)))"
| "walk_fuel k c cur mx =
     (case walk_files k c (file_names c) cur mx of
        None \<Rightarrow> None
      | Some (c1, es1) \<Rightarrow>
          (case walk_dirs k c1 (dir_names c) cur mx of
             None \<Rightarrow> None
           | Some (c2, es2) \<Rightarrow> Some (c2, es1 @ es2)))"
| "walk_files k c [] cur mx = Some (c, [])"
| "walk_files k c (f # fs) cur mx =
     (if endswith f ''.zip'' then
        (case extract_zip_fuel k c f (cur + 1) mx of
           None \<Rightarrow> None
         | Some (c1, es1) \<Rightarrow>
             (case walk_files k c1 fs cur mx of
                None \<Rightarrow> None
              | Some (c2, es2) \<Rightarrow> Some (c2, es1 @ es2)))
      else walk_files k c fs cur mx)"
| "walk_dirs k c [] cur mx = Some (c, [])"
| "walk_dirs k c (d # ds) cur mx =
     (case map_of c d of
        Some (Dir sub) \<Rightarrow>
          (case k of
             0 \<Rightarrow> None
           | Suc k' \<Rightarrow>
               (case walk_fuel k' sub cur mx of
                  None \<Rightarrow> None
                | Some (sub', es1) \<Rightarrow>
                    (case walk_dirs k (put d (Dir sub') c) ds cur mx of
                       None \<Rightarrow> None
                     | Some (c2, es2) \<Rightarrow> Some (c2, es1 @ es2))))
      | _ \<Rightarrow> walk_dirs k c ds cur mx)"
  by pat_completeness auto
termination
  apply (relation "measures [
      (\<lambda>x. case x of
          Inl (Inl (k, c, name, cur, mx)) \<Rightarrow> nat (mx + 2 - cur)
        | Inl (Inr (k, c, cur, mx)) \<Rightarrow> nat (mx + 1 - cur)
        | Inr (Inl (k, c, fs, cur, mx)) \<Rightarrow> nat (mx + 1 - cur)
        | Inr (Inr (k, c, ds, cur, mx)) \<Rightarrow> nat (mx + 1 - cur)),
      (\<lambda>x. case x of
          Inl (Inl (k, c, name, cur, mx)) \<Rightarrow> k
        | Inl (Inr (k, c, cur, mx)) \<Rightarrow> k
        | Inr (Inl (k, c, fs, cur, mx)) \<Rightarrow> k
        | Inr (Inr (k, c, ds, cur, mx)) \<Rightarrow> k),
      (\<lambda>x. case x of
          Inl (Inl (k, c, name, cur, mx)) \<Rightarrow> 0
        | Inl (Inr (k, c, cur, mx)) \<Rightarrow> 2
        | Inr (Inl (k, c, fs, cur, mx)) \<Rightarrow> 1
        | Inr (Inr (k, c, ds, cur, mx)) \<Rightarrow> 1),
      (\<lambda>x. case x of
          Inl (Inl (k, c, name, cur, mx)) \<Rightarrow> 0
        | Inl (Inr (k, c, cur, mx)) \<Rightarrow> 0
        | Inr (Inl (k, c, fs, cur, mx)) \<Rightarrow> length fs
        | Inr (Inr (k, c, ds, cur, mx)) \<Rightarrow> length ds)]")
  apply auto
  done

declare extract_zip_fuel.simps [simp del] walk_fuel.simps [simp del]

text \<open>
  \<open>extract_zip_recursive(zip_path, extract_to, current_depth, max_depth)\<close>, with the
  budget the tree itself gives; \<open>extract_zip_fuel_total\<close> below proves that this budget is
  never used up, so the last case is never taken.
\<close>

definition extract_zip_recursive ::
  "content \<Rightarrow> string \<Rightarrow> int \<Rightarrow> int \<Rightarrow> content \<times> event list" where
  "extract_zip_recursive c name cur mx =
     (case extract_zip_fuel (hbs c) c name cur mx of
        Some r \<Rightarrow> r
      | None \<Rightarrow> (c, []))"

text \<open>The defaults of the signature, \<open>current_depth=0, max_depth=5\<close>.\<close>

definition default_current_depth :: int where
  "default_current_depth = 0"

definition default_max_depth :: int where
  "default_max_depth = 5"

definition extract_zip_recursive_defaults :: "content \<Rightarrow> string \<Rightarrow> content \<times> event list" where
  "extract_zip_recursive_defaults c name =
     extract_zip_recursive c name default_current_depth default_max_depth"

text \<open>The module's constants.\<close>

definition MIN_TOKENS :: int where
  "MIN_TOKENS = 150"

definition MAX_TOKENS :: int where
  "MAX_TOKENS = 1250"

definition RECURSION_DEPTH :: int where
  "RECURSION_DEPTH = 2"

definition metadata_from_filename :: "string \<Rightarrow> (string \<times> string) list" where
  "metadata_from_filename title = [(''title'', title)]"

section \<open>The world and the external collaborators\<close>

text \<open>
  A registered source, as \<open>sync_worker\<close> reads it. The fields are those of the stored
  record; \<open>src_id\<close> is \<open>str(doc.get("_id"))\<close>, and a source without a sync
  frequency has \<open>None\<close> there.
\<close>

record source =
  src_id :: string
  src_name :: string
  src_user :: string
  src_type :: string
  src_remote_data :: string
  src_retriever :: string
  src_sync_frequency :: "string option"

text \<open>
  The state a job works on: the working directories by their path, the events so far, the
  ids minted so far and the two collections.
\<close>

record world =
  fs :: "path \<Rightarrow> content option"
  trace :: "event list"
  oid_counter :: nat
  attachments_collection :: "(object_id \<times> attachment) list"
  sources_collection :: "source list"

text \<open>
  What the module calls and does not define: the HTTP endpoints, the readers, the chunker,
  the embedding sink, the loaders, the token counters and the store. Each may raise, so
  each returns an error or a value. \<open>embed_and_store_documents\<close> returns the files it
  leaves in the working directory. \<open>self.update_state\<close> never raises: progress reports
  are fire and forget.
\<close>

record env =
  settings_VECTOR_STORE :: string
  requests_get :: "file_data \<Rightarrow> error + content option"
  requests_post :: "bool \<Rightarrow> file_data \<Rightarrow> error option"
  SimpleDirectoryReader_dir ::
    "content \<Rightarrow> string list \<Rightarrow> (string \<Rightarrow> (string \<times> string) list) \<Rightarrow> error + document list"
  SimpleDirectoryReader_files :: "string \<Rightarrow> node \<Rightarrow> error + document list"
  Chunker_chunk :: "chunker_args \<Rightarrow> document list \<Rightarrow> error + document list"
  to_langchain_format :: "document \<Rightarrow> lc_document"
  embed_and_store_documents :: "lc_document list \<Rightarrow> path \<Rightarrow> object_id \<Rightarrow> error + content"
  count_tokens_docs :: "lc_document list \<Rightarrow> error + int"
  RemoteCreator_create_loader :: "string \<Rightarrow> error + (string \<Rightarrow> error + document list)"
  ObjectId_is_valid :: "string \<Rightarrow> bool"
  num_tokens_from_string :: "string \<Rightarrow> error + int"
  insert_one_error :: "attachment \<Rightarrow> error option"
  datetime_now :: nat

definition emit :: "event \<Rightarrow> world \<Rightarrow> world" where
  "emit e w = w\<lparr>trace := trace w @ [e]\<rparr>"

definition emits :: "event list \<Rightarrow> world \<Rightarrow> world" where
  "emits es w = w\<lparr>trace := trace w @ es\<rparr>"

text \<open>\<open>os.path.join(directory, user, name_job)\<close>, each argument one path segment.\<close>

definition os_path_join :: "string \<Rightarrow> string \<Rightarrow> string \<Rightarrow> path" where
  "os_path_join directory user name_job = [directory, user, name_job]"

definition os_path_exists :: "world \<Rightarrow> path \<Rightarrow> bool" where
  "os_path_exists w p = (fs w p \<noteq> None)"

definition os_makedirs :: "path \<Rightarrow> world \<Rightarrow> world" where
  "os_makedirs p w = w\<lparr>fs := (fs w)(p \<mapsto> [])\<rparr>"

definition shutil_rmtree :: "path \<Rightarrow> world \<Rightarrow> world \<times> (error + unit)" where
  "shutil_rmtree p w =
     (if fs w p = None then (w, Inl (OSError ''FileNotFoundError''))
      else (w\<lparr>fs := (fs w)(p := None)\<rparr>, Inr ()))"

text \<open>\<open>ObjectId()\<close> mints an id no earlier call has returned.\<close>

definition new_oid :: "world \<Rightarrow> object_id" where
  "new_oid w = Minted (oid_counter w)"

definition bump_oid :: "world \<Rightarrow> world" where
  "bump_oid w = w\<lparr>oid_counter := Suc (oid_counter w)\<rparr>"

definition file_node :: "content option \<Rightarrow> node" where
  "file_node body = (case body of None \<Rightarrow> Plain | Some ms \<Rightarrow> Archive ms)"

definition is_file_in :: "content \<Rightarrow> string \<Rightarrow> bool" where
  "is_file_in c n = (case map_of c n of None \<Rightarrow> False | Some (Dir _) \<Rightarrow> False | Some _ \<Rightarrow> True)"

definition store_files :: "path \<Rightarrow> content \<Rightarrow> world \<Rightarrow> world" where
  "store_files p files w =
     (case fs w p of
        None \<Rightarrow> w
      | Some c \<Rightarrow> w\<lparr>fs := (fs w)(p \<mapsto> fold (\<lambda>e. put (fst e) (snd e)) files c)\<rparr>)"

fun error_message :: "error \<Rightarrow> string" where
  "error_message (RequestException m) = m"
| "error_message (ValueError m) = m"
| "error_message (UnboundLocalError m) = m"
| "error_message (KeyError m) = m"
| "error_message (OSError m) = m"
| "error_message (OtherException m) = m"

section \<open>download_file and upload_index\<close>

text \<open>
  \<open>download_file\<close>: only a \<open>requests.RequestException\<close> is logged; every exception
  goes on to the caller.
\<close>

definition download_file ::
  "env \<Rightarrow> world \<Rightarrow> file_data \<Rightarrow> path \<Rightarrow> string \<Rightarrow> world \<times> (error + unit)" where
  "download_file env w params dir filename =
     (let w1 = emit (HttpGet params) w in
      case requests_get env params of
        Inl e \<Rightarrow>
          (if is_request_exception e
           then (emit (Log ERROR ''Error downloading file'') w1, Inl e)
           else (w1, Inl e))
      | Inr body \<Rightarrow>
          (case fs w1 dir of
             None \<Rightarrow> (w1, Inl (OSError ''FileNotFoundError''))
           | Some c \<Rightarrow>
               (case map_of c filename of
                  Some (Dir _) \<Rightarrow> (w1, Inl (OSError ''IsADirectoryError''))
                | _ \<Rightarrow> (w1\<lparr>fs := (fs w1)(dir \<mapsto> put filename (file_node body) c)\<rparr>, Inr ()))))"

definition post_index :: "env \<Rightarrow> world \<Rightarrow> bool \<Rightarrow> file_data \<Rightarrow> world \<times> (error + unit)" where
  "post_index env w with_files file_data =
     (let w1 = emit (HttpPost with_files file_data) w in
      case requests_post env with_files file_data of
        None \<Rightarrow> (w1, Inr ())
      | Some e \<Rightarrow>
          (if is_request_exception e
           then (emit (Log ERROR ''Error uploading index'') w1, Inl e)
           else (w1, Inl e)))"

text \<open>
  \<open>upload_index\<close>: with the faiss store the two index files are opened first; when one
  cannot be opened, \<open>files\<close> is never bound and the \<open>finally\<close> block raises on it.
\<close>

definition upload_index :: "env \<Rightarrow> world \<Rightarrow> path \<Rightarrow> file_data \<Rightarrow> world \<times> (error + unit)" where
  "upload_index env w full_path file_data =
     (if settings_VECTOR_STORE env = ''faiss'' then
        (case fs w full_path of
           None \<Rightarrow> (w, Inl (UnboundLocalError ''files''))
         | Some c \<Rightarrow>
             (if is_file_in c ''index.faiss'' \<and> is_file_in c ''index.pkl''
              then post_index env w True file_data
              else (w, Inl (UnboundLocalError ''files''))))
      else post_index env w False file_data)"

section \<open>ingest_worker\<close>

datatype ingest_result = IngestResult string "string list" string string string bool

text \<open>The arguments both flows give to \<open>Chunker\<close>.\<close>

definition chunker_policy :: chunker_args where
  "chunker_policy =
     \<lparr>chunking_strategy = ''classic_chunk'', max_tokens = MAX_TOKENS,
      min_tokens = MIN_TOKENS, duplicate_headers = False\<rparr>"

definition extract_step :: "world \<Rightarrow> path \<Rightarrow> string \<Rightarrow> world" where
  "extract_step w full_path filename =
     (if endswith filename ''.zip'' then
        (case fs w full_path of
           None \<Rightarrow> emits [ZipOpened filename 0, Log ERROR ''Error extracting zip file''] w
         | Some c \<Rightarrow>
             (case extract_zip_recursive c filename 0 RECURSION_DEPTH of
                (c', es) \<Rightarrow> (emits es w)\<lparr>fs := (fs w)(full_path \<mapsto> c')\<rparr>))
      else w)"

definition embed_step ::
  "env \<Rightarrow> world \<Rightarrow> lc_document list \<Rightarrow> path \<Rightarrow> object_id \<Rightarrow> world \<times> (error + unit)" where
  "embed_step env w docs full_path oid =
     (let w1 = emit (EmbedCall docs full_path oid) w in
      case embed_and_store_documents env docs full_path oid of
        Inl e \<Rightarrow> (w1, Inl e)
      | Inr files \<Rightarrow> (store_files full_path files w1, Inr ()))"

definition read_directory :: "env \<Rightarrow> world \<Rightarrow> path \<Rightarrow> string list \<Rightarrow> error + document list" where
  "read_directory env w full_path formats =
     (case fs w full_path of
        None \<Rightarrow> Inl (ValueError ''Directory does not exist'')
      | Some c \<Rightarrow> SimpleDirectoryReader_dir env c formats metadata_from_filename)"

text \<open>
  From the reader to the second progress report: load, chunk, convert, mint the id, embed,
  count. Here the chunks replace \<open>raw_docs\<close> before the conversion.
\<close>

definition ingest_process ::
  "env \<Rightarrow> world \<Rightarrow> path \<Rightarrow> string list \<Rightarrow> world \<times> (error + int \<times> object_id)" where
  "ingest_process env w full_path formats =
     (let w1 = emit (ReaderCall full_path) w in
      case read_directory env w1 full_path formats of
        Inl e \<Rightarrow> (w1, Inl e)
      | Inr raw_docs \<Rightarrow>
          (let w2 = emit (ChunkerCall chunker_policy raw_docs) w1 in
           case Chunker_chunk env chunker_policy raw_docs of
             Inl e \<Rightarrow> (w2, Inl e)
           | Inr raw_docs' \<Rightarrow>
               (let docs = map (to_langchain_format env) raw_docs';
                    oid = new_oid w2;
                    w3 = bump_oid w2
                in case embed_step env w3 docs full_path oid of
                     (w4, Inl e) \<Rightarrow> (w4, Inl e)
                   | (w4, Inr _) \<Rightarrow>
                       (let w5 = emit (CountTokens docs) w4 in
                        case count_tokens_docs env docs of
                          Inl e \<Rightarrow> (w5, Inl e)
                        | Inr tokens \<Rightarrow> (emit (UpdateState 100) w5, Inr (tokens, oid))))))"

definition ingest_worker ::
  "env \<Rightarrow> world \<Rightarrow> string \<Rightarrow> string list \<Rightarrow> string \<Rightarrow> string \<Rightarrow> string \<Rightarrow> string
    \<Rightarrow> world \<times> (error + ingest_result)" where
  "ingest_worker env w directory formats name_job filename user retriever =
     (let full_path = os_path_join directory user name_job;
          w0 = emit (Log INFO ''Ingest file'') w;
          file_data =
            \<lparr>fd_name = name_job, fd_file = Some filename, fd_user = user, fd_tokens = None,
             fd_retriever = None, fd_id = None, fd_type = None, fd_remote_data = None,
             fd_sync_frequency = None\<rparr>;
          w1 = (if \<not> os_path_exists w0 full_path then os_makedirs full_path w0 else w0)
      in case download_file env w1 file_data full_path filename of
           (w2, Inl e) \<Rightarrow> (w2, Inl e)
         | (w2, Inr _) \<Rightarrow>
             (let w3 = emit (UpdateState 1) (extract_step w2 full_path filename) in
              case ingest_process env w3 full_path formats of
                (w4, Inl e) \<Rightarrow> (w4, Inl e)
              | (w4, Inr (tokens, oid)) \<Rightarrow>
                  (let file_data' =
                         file_data\<lparr>fd_tokens := Some tokens, fd_retriever := Some retriever,
                                   fd_id := Some oid, fd_type := Some ''local''\<rparr>
                   in case upload_index env w4 full_path file_data' of
                        (w5, Inl e) \<Rightarrow> (w5, Inl e)
                      | (w5, Inr _) \<Rightarrow>
                          (case shutil_rmtree full_path w5 of
                             (w6, Inl e) \<Rightarrow> (w6, Inl e)
                           | (w6, Inr _) \<Rightarrow>
                               (w6, Inr (IngestResult directory formats name_job filename
                                           user False))))))"

text \<open>
  What the steps before the chunker come to: the error of the download or of the reader, or
  the documents the reader loads from the working directory once the upload is extracted.
\<close>

definition ingest_prefix ::
  "env \<Rightarrow> world \<Rightarrow> string \<Rightarrow> string list \<Rightarrow> string \<Rightarrow> string \<Rightarrow> string \<Rightarrow> error + document list" where
  "ingest_prefix env w directory formats name_job filename user =
     (let full_path = os_path_join directory user name_job;
          w0 = emit (Log INFO ''Ingest file'') w;
          file_data =
            \<lparr>fd_name = name_job, fd_file = Some filename, fd_user = user, fd_tokens = None,
             fd_retriever = None, fd_id = None, fd_type = None, fd_remote_data = None,
             fd_sync_frequency = None\<rparr>;
          w1 = (if \<not> os_path_exists w0 full_path then os_makedirs full_path w0 else w0)
      in case download_file env w1 file_data full_path filename of
           (w2, Inl e) \<Rightarrow> Inl e
         | (w2, Inr _) \<Rightarrow>
             read_directory env (extract_step w2 full_path filename) full_path formats)"

section \<open>remote_worker\<close>

datatype remote_result = RemoteResult string string string bool

text \<open>\<open>not doc_id or not ObjectId.is_valid(doc_id)\<close>\<close>

definition invalid_doc_id :: "env \<Rightarrow> string option \<Rightarrow> bool" where
  "invalid_doc_id env doc_id =
     (case doc_id of
        None \<Rightarrow> True
      | Some d \<Rightarrow> (if d = [] then True else \<not> ObjectId_is_valid env d))"

text \<open>
  The \<open>if operation_mode == "upload" ... elif operation_mode == "sync" ...\<close> statement.
  It returns the id it has bound to \<open>id\<close>, and \<open>None\<close> when neither branch ran.
\<close>

definition remote_mode_step ::
  "env \<Rightarrow> world \<Rightarrow> lc_document list \<Rightarrow> path \<Rightarrow> string \<Rightarrow> string option
    \<Rightarrow> world \<times> (error + object_id option)" where
  "remote_mode_step env w docs full_path operation_mode doc_id =
     (if operation_mode = ''upload'' then
        (let oid = new_oid w;
             w1 = bump_oid w
         in case embed_step env w1 docs full_path oid of
              (w2, Inl e) \<Rightarrow> (w2, Inl e)
            | (w2, Inr _) \<Rightarrow> (w2, Inr (Some oid)))
      else if operation_mode = ''sync'' then
        (if invalid_doc_id env doc_id then
           (emit (Log ERROR ''Invalid doc_id provided for sync operation'') w,
            Inl (ValueError ''doc_id must be provided for sync operation.''))
         else
           (let oid = Parsed (case doc_id of None \<Rightarrow> [] | Some d \<Rightarrow> d) in
            case embed_step env w docs full_path oid of
              (w2, Inl e) \<Rightarrow> (w2, Inl e)
            | (w2, Inr _) \<Rightarrow> (w2, Inr (Some oid))))
      else (w, Inr None))"

text \<open>
  The body of the \<open>try\<close> statement. The chunker's result is bound to \<open>docs\<close> and
  overwritten on the next line by the conversion of \<open>raw_docs\<close>. The payload reads
  \<open>id\<close>, which is a local variable of the function and raises when it was never bound.
\<close>

definition remote_worker_body ::
  "env \<Rightarrow> world \<Rightarrow> string \<Rightarrow> string \<Rightarrow> string \<Rightarrow> string \<Rightarrow> path \<Rightarrow> string \<Rightarrow> string \<Rightarrow> string
    \<Rightarrow> string option \<Rightarrow> world \<times> (error + unit)" where
  "remote_worker_body env w source_data name_job user loader full_path retriever
      sync_frequency operation_mode doc_id =
     (let w1 = emit (Log INFO ''Initializing remote loader with type'') w in
      case RemoteCreator_create_loader env loader of
        Inl e \<Rightarrow> (w1, Inl e)
      | Inr load_data \<Rightarrow>
          (let w2 = emit (LoaderCall loader source_data) w1 in
           case load_data source_data of
             Inl e \<Rightarrow> (w2, Inl e)
           | Inr raw_docs \<Rightarrow>
               (let w3 = emit (ChunkerCall chunker_policy raw_docs) w2 in
                case Chunker_chunk env chunker_policy raw_docs of
                  Inl e \<Rightarrow> (w3, Inl e)
                | Inr chunked \<Rightarrow>
                    (let docs = map (to_langchain_format env) raw_docs;
                         w4 = emit (CountTokens docs) w3
                     in case count_tokens_docs env docs of
                          Inl e \<Rightarrow> (w4, Inl e)
                        | Inr tokens \<Rightarrow>
                            (let w5 = emit (Log INFO ''Total tokens calculated'') w4 in
                             case remote_mode_step env w5 docs full_path operation_mode doc_id of
                               (w6, Inl e) \<Rightarrow> (w6, Inl e)
                             | (w6, Inr bound_id) \<Rightarrow>
                                 (let w7 = emit (UpdateState 100) w6 in
                                  case bound_id of
                                    None \<Rightarrow> (w7, Inl (UnboundLocalError ''id''))
                                  | Some oid \<Rightarrow>
                                      upload_index env w7 full_path
                                        \<lparr>fd_name = name_job, fd_file = None, fd_user = user,
                                         fd_tokens = Some tokens,
                                         fd_retriever = Some retriever, fd_id = Some oid,
                                         fd_type = Some loader,
                                         fd_remote_data = Some source_data,
                                         fd_sync_frequency = Some sync_frequency\<rparr>))))))"

text \<open>The \<open>finally\<close> block.\<close>

definition remote_cleanup :: "path \<Rightarrow> world \<Rightarrow> world \<times> (error + unit)" where
  "remote_cleanup full_path w =
     (if os_path_exists w full_path then shutil_rmtree full_path w else (w, Inr ()))"

definition remote_worker ::
  "env \<Rightarrow> world \<Rightarrow> string \<Rightarrow> string \<Rightarrow> string \<Rightarrow> string \<Rightarrow> string \<Rightarrow> string \<Rightarrow> string \<Rightarrow> string
    \<Rightarrow> string option \<Rightarrow> world \<times> (error + remote_result)" where
  "remote_worker env w source_data name_job user loader directory retriever sync_frequency
      operation_mode doc_id =
     (let w0 = emit (RemoteWorkerCalled
                      (RemoteCall source_data name_job user loader directory retriever
                         sync_frequency operation_mode doc_id)) w;
          full_path = os_path_join directory user name_job;
          w1 = (if \<not> os_path_exists w0 full_path then os_makedirs full_path w0 else w0);
          w2 = emit (UpdateState 1) w1
      in case remote_worker_body env w2 source_data name_job user loader full_path retriever
                sync_frequency operation_mode doc_id of
           (w3, r) \<Rightarrow>
             (let w4 = (case r of
                          Inl e \<Rightarrow> emit (Log ERROR ''Error in remote_worker task'') w3
                        | Inr _ \<Rightarrow> w3)
              in case remote_cleanup full_path w4 of
                   (w5, Inl e') \<Rightarrow> (w5, Inl e')
                 | (w5, Inr _) \<Rightarrow>
                     (case r of
                        Inl e \<Rightarrow> (w5, Inl e)
                      | Inr _ \<Rightarrow>
                          (emit (Log INFO ''remote_worker task completed successfully'') w5,
                           Inr (RemoteResult source_data name_job user False)))))"

text \<open>
  What the steps before the mode is looked at come to: the first error among resolving the
  loader, loading, chunking and counting tokens, or the loaded documents and the count.
\<close>

definition remote_prefix :: "env \<Rightarrow> string \<Rightarrow> string \<Rightarrow> error + document list \<times> int" where
  "remote_prefix env loader source_data =
     (case RemoteCreator_create_loader env loader of
        Inl e \<Rightarrow> Inl e
      | Inr load_data \<Rightarrow>
          (case load_data source_data of
             Inl e \<Rightarrow> Inl e
           | Inr raw_docs \<Rightarrow>
               (case Chunker_chunk env chunker_policy raw_docs of
                  Inl e \<Rightarrow> Inl e
                | Inr chunked \<Rightarrow>
                    (case count_tokens_docs env (map (to_langchain_format env) raw_docs) of
                       Inl e \<Rightarrow> Inl e
                     | Inr tokens \<Rightarrow> Inr (raw_docs, tokens)))))"

section \<open>sync and sync_worker\<close>

datatype sync_response = SyncSuccess | SyncError string

fun status :: "sync_response \<Rightarrow> string" where
  "status SyncSuccess = ''success''"
| "status (SyncError _) = ''error''"

definition sync ::
  "env \<Rightarrow> world \<Rightarrow> string \<Rightarrow> string \<Rightarrow> string \<Rightarrow> string \<Rightarrow> string \<Rightarrow> string \<Rightarrow> string option
    \<Rightarrow> string \<Rightarrow> world \<times> sync_response" where
  "sync env w source_data name_job user loader sync_frequency retriever doc_id directory =
     (case remote_worker env w source_data name_job user loader directory retriever
             sync_frequency ''sync'' doc_id of
        (w', Inl e) \<Rightarrow> (emit (Log ERROR ''Error during sync'') w', SyncError (error_message e))
      | (w', Inr _) \<Rightarrow> (w', SyncSuccess))"

text \<open>
  The loop of \<open>sync_worker\<close> over \<open>sources_collection.find()\<close>. \<open>sync_counts\<close> is a
  \<open>Counter\<close>: every key it has not counted reads 0.
\<close>

fun sync_loop ::
  "env \<Rightarrow> string \<Rightarrow> source list \<Rightarrow> world \<Rightarrow> (string \<Rightarrow> nat) \<Rightarrow> world \<times> (string \<Rightarrow> nat)" where
  "sync_loop env frequency [] w sync_counts = (w, sync_counts)"
| "sync_loop env frequency (doc # docs) w sync_counts =
     (if src_sync_frequency doc = Some frequency then
        (case sync env w (src_remote_data doc) (src_name doc) (src_user doc) (src_type doc)
                frequency (src_retriever doc) (Some (src_id doc)) ''temp'' of
           (w', resp) \<Rightarrow>
             (let counts1 = sync_counts(''total_sync_count'' := sync_counts ''total_sync_count'' + 1);
                  key = (if status resp = ''success'' then ''sync_success'' else ''sync_failure'');
                  counts2 = counts1(key := counts1 key + 1)
              in sync_loop env frequency docs w' counts2))
      else sync_loop env frequency docs w sync_counts)"

definition sync_worker :: "env \<Rightarrow> world \<Rightarrow> string \<Rightarrow> world \<times> (string \<times> nat) list" where
  "sync_worker env w frequency =
     (case sync_loop env frequency (sources_collection w) w (\<lambda>key. 0) of
        (w', sync_counts) \<Rightarrow>
          (w', map (\<lambda>key. (key, sync_counts key))
                 [''total_sync_count'', ''sync_success'', ''sync_failure'']))"



section \<open>attachment_worker\<close>

text \<open>
  The dictionary \<open>attachment_worker\<close> returns: the error value, or the stored attachment
  (id, filename, folder, path, token count).
\<close>

datatype attachment_result =
    AttachmentError string
  | AttachmentStored object_id string string string int

definition file_exists :: "world \<Rightarrow> string \<Rightarrow> string \<Rightarrow> bool" where
  "file_exists w directory filename =
     (case fs w [directory] of
        None \<Rightarrow> False
      | Some c \<Rightarrow> (case map_of c filename of None \<Rightarrow> False | Some _ \<Rightarrow> True))"

definition read_file :: "env \<Rightarrow> world \<Rightarrow> string \<Rightarrow> string \<Rightarrow> error + document list" where
  "read_file env w directory filename =
     (case fs w [directory] of
        None \<Rightarrow> Inl (ValueError ''File does not exist'')
      | Some c \<Rightarrow>
          (case map_of c filename of
             None \<Rightarrow> Inl (ValueError ''File does not exist'')
           | Some x \<Rightarrow> SimpleDirectoryReader_files env filename x))"

text \<open>The body of the \<open>try\<close> statement of \<open>attachment_worker\<close>.\<close>

definition attachment_try ::
  "env \<Rightarrow> world \<Rightarrow> string \<Rightarrow> string \<Rightarrow> string \<Rightarrow> string \<Rightarrow> world \<times> (error + attachment_result)" where
  "attachment_try env w directory user folder_name filename =
     (let w1 = emit (ReaderCall [directory, filename]) w in
      case read_file env w1 directory filename of
        Inl e \<Rightarrow> (w1, Inl e)
      | Inr documents \<Rightarrow>
          (let w2 = emit (UpdateState 50) w1 in
           case documents of
             [] \<Rightarrow>
               (emit (Log WARNING ''No content was extracted from the file'') w2,
                Inr (AttachmentError ''No content was extracted from the file''))
           | d # _ \<Rightarrow>
               (let content = doc_text d in
                case num_tokens_from_string env content of
                  Inl e \<Rightarrow> (w2, Inl e)
                | Inr token_count \<Rightarrow>
                    (let file_path_relative =
                           user @ ''/attachments/'' @ folder_name @ ''/'' @ filename;
                         record = \<lparr>att_user = user, att_path = file_path_relative,
                                   att_content = content, att_token_count = token_count,
                                   att_date = datetime_now env\<rparr>;
                         w3 = emit (InsertOne record) w2
                     in case insert_one_error env record of
                          Some e \<Rightarrow> (w3, Inl e)
                        | None \<Rightarrow>
                            (let oid = new_oid w3;
                                 w4 = (bump_oid w3)
                                        \<lparr>attachments_collection :=
                                           attachments_collection w3 @ [(oid, record)]\<rparr>;
                                 w5 = emit (UpdateState 100)
                                        (emit (Log INFO ''Stored attachment with ID'') w4)
                             in (w5, Inr (AttachmentStored oid filename folder_name
                                            file_path_relative token_count)))))))"

text \<open>
  \<open>attachment_worker\<close>. \<open>file_info\<close> is a dictionary; the two subscripts
  \<open>file_info["folder"]\<close> and \<open>file_info["filename"]\<close> stand before the \<open>try\<close>
  statement.
\<close>

definition attachment_worker ::
  "env \<Rightarrow> world \<Rightarrow> string \<Rightarrow> (string \<Rightarrow> string option) \<Rightarrow> string
    \<Rightarrow> world \<times> (error + attachment_result)" where
  "attachment_worker env w directory file_info user =
     (case file_info ''folder'' of
        None \<Rightarrow> (w, Inl (KeyError ''folder''))
      | Some job_name \<Rightarrow>
          (let w1 = emit (UpdateState 10) (emit (Log INFO ''Processing attachment'') w);
               folder_name = job_name
           in case file_info ''filename'' of
                None \<Rightarrow> (w1, Inl (KeyError ''filename''))
              | Some filename \<Rightarrow>
                  (let w2 = emit (Log INFO ''Processing file'') w1 in
                   if \<not> file_exists w2 directory filename then
                     (emit (Log WARNING ''File not found'') w2,
                      Inr (AttachmentError ''File not found''))
                   else
                     (case attachment_try env w2 directory user folder_name filename of
                        (w3, Inl e) \<Rightarrow>
                          (emit (Log ERROR ''Error processing file'') w3,
                           Inr (AttachmentError (''Error processing file: '' @ error_message e)))
                      | (w3, Inr r) \<Rightarrow> (w3, Inr r)))))"

section \<open>Reading the trace\<close>

fun opened_depths :: "event list \<Rightarrow> int list" where
  "opened_depths [] = []"
| "opened_depths (ZipOpened n d # es) = d # opened_depths es"
| "opened_depths (_ # es) = opened_depths es"

fun chunker_calls :: "event list \<Rightarrow> chunker_args list" where
  "chunker_calls [] = []"
| "chunker_calls (ChunkerCall a ds # es) = a # chunker_calls es"
| "chunker_calls (_ # es) = chunker_calls es"

fun embed_calls :: "event list \<Rightarrow> lc_document list list" where
  "embed_calls [] = []"
| "embed_calls (EmbedCall ds p i # es) = ds # embed_calls es"
| "embed_calls (_ # es) = embed_calls es"

fun post_calls :: "event list \<Rightarrow> file_data list" where
  "post_calls [] = []"
| "post_calls (HttpPost b fd # es) = fd # post_calls es"
| "post_calls (_ # es) = post_calls es"

fun remote_calls :: "event list \<Rightarrow> remote_call list" where
  "remote_calls [] = []"
| "remote_calls (RemoteWorkerCalled c # es) = c # remote_calls es"
| "remote_calls (_ # es) = remote_calls es"

fun sync_errors :: "event list \<Rightarrow> nat" where
  "sync_errors [] = 0"
| "sync_errors (Log l m # es) =
     (if l = ERROR \<and> m = ''Error during sync'' then Suc (sync_errors es) else sync_errors es)"
| "sync_errors (_ # es) = sync_errors es"

text \<open>
  The events \<open>extract_zip_recursive\<close> may leave when called at a depth with a limit:
  log lines, and archives opened at a depth from the call's own up to the limit.
\<close>

fun extract_event :: "int \<Rightarrow> int \<Rightarrow> event \<Rightarrow> bool" where
  "extract_event cur mx (ZipOpened n d) = (cur \<le> d \<and> d \<le> mx)"
| "extract_event cur mx (Log l m) = True"
| "extract_event cur mx _ = False"

section \<open>Concrete inputs\<close>

text \<open>
  An upload whose archives are nested seven deep, and an upload with two archives side by
  side, each holding one more archive.
\<close>

definition nested7 :: content where
  "nested7 =
     [(''z0.zip'', Archive [(''z1.zip'', Archive [(''z2.zip'', Archive [(''z3.zip'',
        Archive [(''z4.zip'', Archive [(''z5.zip'', Archive [(''z6.zip'',
          Archive [(''readme.md'', Plain)])])])])])])])]"

definition two_branches_rev :: content where
  "two_branches_rev =
     [(''top.zip'', Archive
        [(''b.zip'', Archive [(''f.zip'', Archive [(''g.md'', Plain)])]),
         (''a.zip'', Archive [(''e.zip'', Archive [(''c.md'', Plain)])])])]"

definition notes_zip :: content where
  "notes_zip =
     [(''notes.zip'', Archive [(''a.md'', Plain), (''b.zip'', Archive [(''c.md'', Plain)])])]"

definition two_branches :: content where
  "two_branches =
     [(''top.zip'', Archive
        [(''a.zip'', Archive [(''e.zip'', Archive [(''c.md'', Plain)])]),
         (''b.zip'', Archive [(''f.zip'', Archive [(''g.md'', Plain)])])])]"

text \<open>
  An environment in which every collaborator succeeds and the chunker cuts each document in
  two, the same with a loader whose fetch fails, and an empty world.
\<close>

definition env0 :: env where
  "env0 =
     \<lparr>settings_VECTOR_STORE = ''faiss'',
      requests_get = (\<lambda>params. Inr (Some [(''a.md'', Plain)])),
      requests_post = (\<lambda>with_files payload. None),
      SimpleDirectoryReader_dir = (\<lambda>c exts meta. Inr [Document ''one two'' (meta ''a.md'')]),
      SimpleDirectoryReader_files = (\<lambda>name x. Inr [Document ''hello'' []]),
      Chunker_chunk = (\<lambda>args ds. Inr (concat (map (\<lambda>d. [Document ''one'' (doc_extra_info d),
                                                          Document ''two'' (doc_extra_info d)]) ds))),
      to_langchain_format = (\<lambda>d. LCDocument (doc_text d) (doc_extra_info d)),
      embed_and_store_documents = (\<lambda>ds p i. Inr [(''index.faiss'', Plain), (''index.pkl'', Plain)]),
      count_tokens_docs = (\<lambda>ds. Inr (int (length ds))),
      RemoteCreator_create_loader =
        (\<lambda>t. if t = ''crawler'' then Inr (\<lambda>src. Inr [Document ''one two'' []])
             else Inl (ValueError ''No loader class found'')),
      ObjectId_is_valid = (\<lambda>s. length s = 24),
      num_tokens_from_string = (\<lambda>s. Inr (int (length s))),
      insert_one_error = (\<lambda>a. None),
      datetime_now = 0\<rparr>"

definition env_unreachable :: env where
  "env_unreachable =
     env0\<lparr>RemoteCreator_create_loader :=
            (\<lambda>t. Inr (\<lambda>src. Inl (RequestException ''unreachable'')))\<rparr>"

definition world0 :: world where
  "world0 =
     \<lparr>fs = Map.empty, trace = [], oid_counter = 0, attachments_collection = [],
      sources_collection = []\<rparr>"

text \<open>
  A world whose directory \<open>inputs\<close> holds the file \<open>a.txt\<close>, and the dictionary of
  an attachment in folder \<open>f1\<close>.
\<close>

definition world_inputs :: world where
  "world_inputs = world0\<lparr>fs := [[''inputs''] \<mapsto> [(''a.txt'', Plain)]]\<rparr>"

definition file_info_a :: "string \<Rightarrow> string option" where
  "file_info_a = [''folder'' \<mapsto> ''f1'', ''filename'' \<mapsto> ''a.txt'']"

text \<open>
  The environment \<open>env0\<close> with a download that fails, and with a reader that yields two
  documents for one file.
\<close>

definition env_offline :: env where
  "env_offline = env0\<lparr>requests_get := (\<lambda>params. Inl (RequestException ''offline''))\<rparr>"

definition env_two_pages :: env where
  "env_two_pages =
     env0\<lparr>SimpleDirectoryReader_files :=
            (\<lambda>name x. Inr [Document ''page one'' [], Document ''page two'' []])\<rparr>"

text \<open>
  A store of four sources: three are synced daily, one never; the loader type \<open>rss\<close> of
  the third does not resolve in \<open>env0\<close>.
\<close>

definition sources3 :: "source list" where
  "sources3 =
     [\<lparr>src_id = ''0123456789abcdef01234567'', src_name = ''site'', src_user = ''u1'',
       src_type = ''crawler'', src_remote_data = ''http://a'', src_retriever = ''classic'',
       src_sync_frequency = Some ''daily''\<rparr>,
      \<lparr>src_id = ''0123456789abcdef01234568'', src_name = ''wiki'', src_user = ''u1'',
       src_type = ''crawler'', src_remote_data = ''http://b'', src_retriever = ''classic'',
       src_sync_frequency = Some ''never''\<rparr>,
      \<lparr>src_id = ''0123456789abcdef01234569'', src_name = ''feed'', src_user = ''u2'',
       src_type = ''rss'', src_remote_data = ''http://c'', src_retriever = ''classic'',
       src_sync_frequency = Some ''daily''\<rparr>,
      \<lparr>src_id = ''0123456789abcdef0123456a'', src_name = ''blog'', src_user = ''u2'',
       src_type = ''crawler'', src_remote_data = ''http://d'', src_retriever = ''classic'',
       src_sync_frequency = Some ''daily''\<rparr>]"

definition world_sources :: world where
  "world_sources = world0\<lparr>sources_collection := sources3\<rparr>"

section \<open>The walk always returns\<close>

text \<open>
  No extraction makes a chain of directories longer than \<open>hbs\<close> of the tree it starts
  from, so a walk that may enter \<open>hbs c\<close> levels never uses up its budget.
\<close>

lemma hbs_put: "hbs (put n x c) \<le> max (hb x) (hbs c)"
  by (induction n x c rule: put.induct) auto

lemma hbs_put_le: "hb x \<le> m \<Longrightarrow> hbs c \<le> m \<Longrightarrow> hbs (put n x c) \<le> m"
  using hbs_put [of n x c] by simp

lemma hbs_remove_entry: "hbs (remove_entry n c) \<le> hbs c"
  unfolding remove_entry_def by (induction c) (auto simp: max.coboundedI2)

lemma hb_map_of: "map_of c n = Some x \<Longrightarrow> hb x \<le> hbs c"
  by (induction c) (auto split: if_splits simp: max.coboundedI2)

lemma hbs_extractall:
  "hbs (fst (extractall dest ms)) \<le> max (hbs dest) (hbs ms)"
  "hbs (fst (write_member dest n x)) \<le> max (hbs dest) (hb x)"
proof (induction dest ms and dest n x rule: extractall_write_member.induct)
  case (1 dest)
  then show ?case by simp
next
  case (2 dest n x ms)
  show ?case
  proof (cases "write_member dest n x")
    case (Pair d' ok)
    have a: "hbs d' \<le> max (hbs dest) (hb x)" using 2(1) Pair by simp
    show ?thesis
    proof (cases ok)
      case True
      have b: "hbs (fst (extractall d' ms)) \<le> max (hbs d') (hbs ms)"
        using 2(2) [of d' True] Pair True by simp
      have "hbs (fst (extractall d' ms)) \<le> max (hbs dest) (max (hb x) (hbs ms))"
        using a b by linarith
      then show ?thesis using Pair True by simp
    next
      case False
      have "hbs d' \<le> max (hbs dest) (max (hb x) (hbs ms))" using a by linarith
      then show ?thesis using Pair False by simp
    qed
  qed
next
  case (3 dest n sub)
  show ?case
  proof (cases "map_of dest n")
    case None
    with 3 show ?thesis
      using hbs_put [of n "Dir (fst (extractall [] sub))" dest]
      by (auto split: prod.splits)
  next
    case (Some y)
    show ?thesis
    proof (cases y)
      case (Dir old)
      have "hb (Dir old) \<le> hbs dest" using Some Dir hb_map_of by blast
      with 3 Some Dir show ?thesis
        using hbs_put [of n "Dir (fst (extractall old sub))" dest]
        by (auto split: prod.splits)
    qed (use Some in auto)
  qed
qed (auto split: option.splits node.splits intro!: hbs_put_le)

lemma hbs_try_extract: "hbs (fst (try_extract c name)) \<le> hbs c"
proof (cases "map_of c name")
  case None
  then show ?thesis by (simp add: try_extract_def)
next
  case (Some y)
  show ?thesis
  proof (cases y)
    case (Archive ms)
    have a: "hbs ms \<le> hbs c" using hb_map_of [OF Some] Archive by simp
    have b: "hbs (fst (extractall c ms)) \<le> hbs c" using hbs_extractall(1) [of c ms] a by simp
    show ?thesis using Some Archive b hbs_remove_entry [of name "fst (extractall c ms)"]
      by (auto simp: try_extract_def split: prod.splits bool.splits)
  qed (use Some in \<open>auto simp: try_extract_def\<close>)
qed

lemma fuel_enough:
  "hbs c \<le> k \<longrightarrow> (\<exists>c' es. extract_zip_fuel k c name cur mx = Some (c', es) \<and> hbs c' \<le> hbs c)"
  "hbs c \<le> k \<longrightarrow> (\<exists>c' es. walk_fuel k c cur mx = Some (c', es) \<and> hbs c' \<le> hbs c)"
  "hbs c \<le> k \<longrightarrow> (\<exists>c' es. walk_files k c fns cur mx = Some (c', es) \<and> hbs c' \<le> hbs c)"
  "hbs c \<le> k \<longrightarrow> (\<exists>c' es. walk_dirs k c ds cur mx = Some (c', es) \<and> hbs c' \<le> hbs c)"
proof (induction k c name cur mx and k c cur mx and k c fns cur mx and k c ds cur mx
    rule: extract_zip_fuel_walk_fuel_walk_files_walk_dirs.induct)
  case (1 k c name cur mx)
  show ?case
  proof
    assume k: "hbs c \<le> k"
    show "\<exists>c' es. extract_zip_fuel k c name cur mx = Some (c', es) \<and> hbs c' \<le> hbs c"
    proof (cases "cur > mx")
      case True
      then show ?thesis by (simp add: extract_zip_fuel.simps)
    next
      case False
      obtain c1 b where t: "try_extract c name = (c1, b)" by (cases "try_extract c name")
      have le: "hbs c1 \<le> hbs c" using hbs_try_extract [of c name] t by simp
      show ?thesis
      proof (cases b)
        case True
        from 1 [of c1 b] False t True le k
        obtain c2 es where "walk_fuel k c1 cur mx = Some (c2, es)" "hbs c2 \<le> hbs c1"
          by auto
        then show ?thesis using False t True le by (simp add: extract_zip_fuel.simps)
      next
        case False
        then show ?thesis using \<open>\<not> cur > mx\<close> t le by (simp add: extract_zip_fuel.simps)
      qed
    qed
  qed
next
  case (2 k c cur mx)
  show ?case
  proof
    assume k: "hbs c \<le> k"
    from 2(1) k obtain c1 es1 where
      a: "walk_files k c (file_names c) cur mx = Some (c1, es1)" and a': "hbs c1 \<le> hbs c"
      by auto
    from 2(2) [OF a refl] a' k obtain c2 es2 where
      b: "walk_dirs k c1 (dir_names c) cur mx = Some (c2, es2)" and b': "hbs c2 \<le> hbs c1"
      by auto
    show "\<exists>c' es. walk_fuel k c cur mx = Some (c', es) \<and> hbs c' \<le> hbs c"
      using a a' b b' by (simp add: walk_fuel.simps)
  qed
next
  case (3 k c cur mx)
  then show ?case by simp
next
  case (4 k c f fns cur mx)
  show ?case
  proof
    assume k: "hbs c \<le> k"
    show "\<exists>c' es. walk_files k c (f # fns) cur mx = Some (c', es) \<and> hbs c' \<le> hbs c"
    proof (cases "endswith f ''.zip''")
      case True
      from 4(1) [OF True] k obtain c1 es1 where
        a: "extract_zip_fuel k c f (cur + 1) mx = Some (c1, es1)" and a': "hbs c1 \<le> hbs c"
        by auto
      from 4(2) [OF True a refl] a' k obtain c2 es2 where
        b: "walk_files k c1 fns cur mx = Some (c2, es2)" and b': "hbs c2 \<le> hbs c1"
        by auto
      show ?thesis using True a a' b b' by simp
    next
      case False
      then show ?thesis using 4(3) k by simp
    qed
  qed
next
  case (5 k c cur mx)
  then show ?case by simp
next
  case (6 k c d ds cur mx)
  show ?case
  proof
    assume k: "hbs c \<le> k"
    show "\<exists>c' es. walk_dirs k c (d # ds) cur mx = Some (c', es) \<and> hbs c' \<le> hbs c"
    proof (cases "map_of c d")
      case None
      then show ?thesis using 6(1) k by simp
    next
      case (Some y)
      show ?thesis
      proof (cases y)
        case Plain
        then show ?thesis using 6(2) Some k by simp
      next
        case (Archive ms)
        then show ?thesis using 6(3) Some k by simp
      next
        case (Dir sub)
        have h: "Suc (hbs sub) \<le> hbs c" using hb_map_of [OF Some] Dir by simp
        then obtain k' where k': "k = Suc k'" and sub: "hbs sub \<le> k'"
          using k by (cases k) auto
        from 6(4) [OF Some Dir k'] sub obtain sub' es1 where
          a: "walk_fuel k' sub cur mx = Some (sub', es1)" and a': "hbs sub' \<le> hbs sub"
          by auto
        have p: "hbs (put d (Dir sub') c) \<le> hbs c"
          using a' h by (intro hbs_put_le) auto
        from 6(5) [OF Some Dir k' a refl] p k obtain c2 es2 where
          b: "walk_dirs k (put d (Dir sub') c) ds cur mx = Some (c2, es2)"
          and b': "hbs c2 \<le> hbs (put d (Dir sub') c)"
          by auto
        show ?thesis using Some Dir k' a b b' p by simp
      qed
    qed
  qed
qed

lemma extract_zip_fuel_total:
  "\<exists>r. extract_zip_fuel (hbs c) c name cur mx = Some r"
  using fuel_enough(1) [of c "hbs c" name cur mx] by auto

section \<open>Recursion depth of the extraction\<close>

lemma extract_event_mono: "extract_event (cur + 1) mx e \<Longrightarrow> extract_event cur mx e"
  by (cases e) auto

lemma extract_events_mono:
  "list_all (extract_event (cur + 1) mx) es \<Longrightarrow> list_all (extract_event cur mx) es"
  by (induction es) (auto intro: extract_event_mono)

lemma fuel_events:
  "extract_zip_fuel k c name cur mx = Some (c', es) \<longrightarrow> list_all (extract_event cur mx) es"
  "walk_fuel k c cur mx = Some (c', es) \<longrightarrow> list_all (extract_event cur mx) es"
  "walk_files k c fns cur mx = Some (c', es) \<longrightarrow> list_all (extract_event cur mx) es"
  "walk_dirs k c ds cur mx = Some (c', es) \<longrightarrow> list_all (extract_event cur mx) es"
proof (induction k c name cur mx and k c cur mx and k c fns cur mx and k c ds cur mx
    arbitrary: c' es and c' es and c' es and c' es
    rule: extract_zip_fuel_walk_fuel_walk_files_walk_dirs.induct)
  case (1 k c name cur mx)
  show ?case
  proof (cases "cur > mx")
    case True
    then show ?thesis by (auto simp: extract_zip_fuel.simps)
  next
    case False
    obtain c1 b where t: "try_extract c name = (c1, b)" by (cases "try_extract c name")
    show ?thesis
    proof (cases b)
      case True
      show ?thesis using False t True 1 [of c1 b]
        by (auto split: option.splits simp: extract_zip_fuel.simps)
    next
      case False
      then show ?thesis using \<open>\<not> cur > mx\<close> t by (auto simp: extract_zip_fuel.simps)
    qed
  qed
next
  case (2 k c cur mx)
  show ?case
  proof
    assume a: "walk_fuel k c cur mx = Some (c', es)"
    from a obtain c1 es1 c2 es2 where
      f: "walk_files k c (file_names c) cur mx = Some (c1, es1)" and
      d: "walk_dirs k c1 (dir_names c) cur mx = Some (c2, es2)" and es: "es = es1 @ es2"
      by (auto split: option.splits simp: walk_fuel.simps)
    have a1: "list_all (extract_event cur mx) es1"
      using 2(1) f by simp
    have a2: "list_all (extract_event cur mx) es2"
      using 2(2) [OF f refl] d by simp
    show "list_all (extract_event cur mx) es"
      using a1 a2 es by simp
  qed
next
  case (3 k c cur mx)
  then show ?case by simp
next
  case (4 k c f fns cur mx)
  show ?case
  proof (cases "endswith f ''.zip''")
    case True
    show ?thesis
    proof
      assume a: "walk_files k c (f # fns) cur mx = Some (c', es)"
      from a True obtain c1 es1 c2 es2 where
        e: "extract_zip_fuel k c f (cur + 1) mx = Some (c1, es1)" and
        w: "walk_files k c1 fns cur mx = Some (c2, es2)" and es: "es = es1 @ es2"
        by (auto split: option.splits)
      have "list_all (extract_event (cur + 1) mx) es1"
        using 4(1) [OF True] e by simp
      then have a1: "list_all (extract_event cur mx) es1"
        by (rule extract_events_mono)
      have a2: "list_all (extract_event cur mx) es2"
        using 4(2) [OF True e refl] w by simp
      show "list_all (extract_event cur mx) es"
        using a1 a2 es by simp
    qed
  next
    case False
    then show ?thesis using 4(3) by simp
  qed
next
  case (5 k c cur mx)
  then show ?case by simp
next
  case (6 k c d ds cur mx)
  show ?case
  proof
    assume a: "walk_dirs k c (d # ds) cur mx = Some (c', es)"
    show "list_all (extract_event cur mx) es"
    proof (cases "map_of c d")
      case None
      then show ?thesis using 6(1) a by simp
    next
      case (Some y)
      show ?thesis
      proof (cases y)
        case Plain
        then show ?thesis using 6(2) Some a by simp
      next
        case (Archive ms)
        then show ?thesis using 6(3) Some a by simp
      next
        case (Dir sub)
        from a Some Dir obtain k' sub' es1 c2 es2 where
          k': "k = Suc k'" and
          f: "walk_fuel k' sub cur mx = Some (sub', es1)" and
          g: "walk_dirs k (put d (Dir sub') c) ds cur mx = Some (c2, es2)" and
          es: "es = es1 @ es2"
          by (auto split: option.splits nat.splits)
        have a1: "list_all (extract_event cur mx) es1"
          using 6(4) [OF Some Dir k'] f by simp
        have a2: "list_all (extract_event cur mx) es2"
          using 6(5) [OF Some Dir k' f refl] g by simp
        show ?thesis using a1 a2 es by simp
      qed
    qed
  qed
qed

lemma extract_zip_recursive_events:
  "list_all (extract_event cur mx) (snd (extract_zip_recursive c name cur mx))"
proof (cases "extract_zip_fuel (hbs c) c name cur mx")
  case None
  then show ?thesis by (simp add: extract_zip_recursive_def)
next
  case (Some r)
  obtain c' es where r: "r = (c', es)" by (cases r)
  show ?thesis using fuel_events(1) [of "hbs c" c name cur mx c' es] Some r
    by (simp add: extract_zip_recursive_def)
qed

lemma extract_events_depths:
  "list_all (extract_event cur mx) es \<Longrightarrow>
     list_all (\<lambda>d. cur \<le> d \<and> d \<le> mx) (opened_depths es)"
  by (induction es rule: opened_depths.induct) auto

lemma extract_events_no_calls:
  "list_all (extract_event cur mx) es \<Longrightarrow> chunker_calls es = []"
  by (induction es rule: chunker_calls.induct) auto

lemma extract_zip_recursive_depths:
  "list_all (\<lambda>d. cur \<le> d \<and> d \<le> mx) (opened_depths (snd (extract_zip_recursive c name cur mx)))"
  by (rule extract_events_depths [OF extract_zip_recursive_events])

text \<open>
  C3, as the code has it. The only bound on the recursion depth of
  \<open>extract_zip_recursive\<close> is its parameter \<open>max_depth\<close>: whatever value the caller
  passes, the \<open>try\<close> block is never entered at a depth above it. The value 5 is the
  default of that parameter and bounds the depth only when the caller passes none;
  \<open>ingest_worker\<close> passes \<open>RECURSION_DEPTH\<close>, which is 2.
\<close>

theorem extract_zip_depth_bounded_by_max_depth:
  "list_all (\<lambda>d. d \<le> mx) (opened_depths (snd (extract_zip_recursive c name cur mx)))
   \<and> list_all (\<lambda>d. d \<le> 5) (opened_depths (snd (extract_zip_recursive_defaults c name)))
   \<and> list_all (\<lambda>d. d \<le> 2)
        (opened_depths (snd (extract_zip_recursive c name 0 RECURSION_DEPTH)))"
proof -
  have a: "list_all (\<lambda>d. d \<le> m) (opened_depths (snd (extract_zip_recursive c name k m)))"
    for k m
    using extract_zip_recursive_depths [of k m c name] by (auto simp: list_all_iff)
  show ?thesis
    using a [of mx cur] a [of 5 0] a [of 2 0]
    by (simp add: extract_zip_recursive_defaults_def default_current_depth_def
        default_max_depth_def RECURSION_DEPTH_def)
qed

text \<open>
  C3, as the specification states it: no extraction proceeds past depth 5 even when the
  caller passes a larger limit. With the limit 7 and archives nested seven deep, the
  archive at depth 6 is opened.
\<close>

theorem depth_five_is_no_ceiling:
  "\<not> list_all (\<lambda>d. d \<le> 5) (opened_depths (snd (extract_zip_recursive nested7 ''z0.zip'' 0 7)))"
  by code_simp

section \<open>Archives side by side\<close>

text \<open>
  C7. \<open>top.zip\<close> holds \<open>a.zip\<close> and \<open>b.zip\<close>; \<open>a.zip\<close> holds \<open>e.zip\<close> and
  \<open>b.zip\<close> holds \<open>f.zip\<close>, so no archive is nested deeper than 2, the limit
  \<open>ingest_worker\<close> passes. The call that extracts \<open>a.zip\<close> walks the working directory
  again and extracts its neighbour \<open>b.zip\<close> one level deeper, where \<open>f.zip\<close> is above
  the limit; the outer loops run over the names they listed before and do not see
  \<open>f.zip\<close>. It is left packed, and \<open>b.zip\<close>, already removed, is logged as an error.
\<close>

theorem sibling_archive_left_packed:
  "extract_zip_recursive two_branches ''top.zip'' 0 RECURSION_DEPTH =
     ([(''f.zip'', Archive [(''g.md'', Plain)]), (''c.md'', Plain)],
      [ZipOpened ''top.zip'' 0, ZipOpened ''a.zip'' 1, ZipOpened ''b.zip'' 2,
       Log WARNING ''Reached maximum recursion depth'',
       Log WARNING ''Reached maximum recursion depth'', ZipOpened ''e.zip'' 2,
       Log WARNING ''Reached maximum recursion depth'', ZipOpened ''b.zip'' 1,
       Log ERROR ''Error extracting zip file''])"
  by code_simp

text \<open>
  The same upload listed in the other order leaves \<open>e.zip\<close> packed instead, and the
  example of the specification (\<open>notes.zip\<close> holding \<open>a.md\<close> and \<open>b.zip\<close>) is
  unpacked in full.
\<close>

lemma sibling_archive_left_packed_other_order:
  "fst (extract_zip_recursive two_branches_rev ''top.zip'' 0 RECURSION_DEPTH) =
     [(''e.zip'', Archive [(''c.md'', Plain)]), (''g.md'', Plain)]"
  by code_simp

lemma notes_zip_unpacked:
  "extract_zip_recursive notes_zip ''notes.zip'' 0 RECURSION_DEPTH =
     ([(''a.md'', Plain), (''c.md'', Plain)],
      [ZipOpened ''notes.zip'' 0, ZipOpened ''b.zip'' 1])"
  by code_simp

section \<open>Events of the remote flow\<close>

lemma fs_emit [simp]: "fs (emit e w) = fs w"
  by (simp add: emit_def)

lemma trace_emit [simp]: "trace (emit e w) = trace w @ [e]"
  by (simp add: emit_def)

lemma chunker_calls_append [simp]: "chunker_calls (xs @ ys) = chunker_calls xs @ chunker_calls ys"
  by (induction xs rule: chunker_calls.induct) auto

lemma embed_calls_append [simp]: "embed_calls (xs @ ys) = embed_calls xs @ embed_calls ys"
  by (induction xs rule: embed_calls.induct) auto

lemma post_calls_append [simp]: "post_calls (xs @ ys) = post_calls xs @ post_calls ys"
  by (induction xs rule: post_calls.induct) auto

lemma remote_calls_append [simp]: "remote_calls (xs @ ys) = remote_calls xs @ remote_calls ys"
  by (induction xs rule: remote_calls.induct) auto

lemma sync_errors_append [simp]: "sync_errors (xs @ ys) = sync_errors xs + sync_errors ys"
  by (induction xs rule: sync_errors.induct) auto

lemma trace_bump_oid [simp]: "trace (bump_oid w) = trace w"
  by (simp add: bump_oid_def)

lemma trace_os_makedirs [simp]: "trace (os_makedirs p w) = trace w"
  by (simp add: os_makedirs_def)

lemma trace_store_files [simp]: "trace (store_files p files w) = trace w"
  by (simp add: store_files_def split: option.splits)

lemma trace_embed_step [simp]:
  "trace (fst (embed_step env w docs p oid)) = trace w @ [EmbedCall docs p oid]"
  by (simp add: embed_step_def Let_def split: sum.splits)

lemma trace_post_index:
  "trace (fst (post_index env w b fd)) =
     trace w @ HttpPost b fd #
       (case requests_post env b fd of
          None \<Rightarrow> []
        | Some e \<Rightarrow> if is_request_exception e then [Log ERROR ''Error uploading index''] else [])"
  by (simp add: post_index_def Let_def split: option.splits)

lemma trace_remote_cleanup [simp]: "trace (fst (remote_cleanup p w)) = trace w"
  by (simp add: remote_cleanup_def shutil_rmtree_def)

lemma upload_index_frame:
  "embed_calls (trace (fst (upload_index env w p fd))) = embed_calls (trace w)"
  "chunker_calls (trace (fst (upload_index env w p fd))) = chunker_calls (trace w)"
  "remote_calls (trace (fst (upload_index env w p fd))) = remote_calls (trace w)"
  "sync_errors (trace (fst (upload_index env w p fd))) = sync_errors (trace w)"
  by (simp_all add: upload_index_def trace_post_index split: option.splits)

lemma remote_mode_step_frame:
  "chunker_calls (trace (fst (remote_mode_step env w docs p om di))) = chunker_calls (trace w)"
  "remote_calls (trace (fst (remote_mode_step env w docs p om di))) = remote_calls (trace w)"
  "sync_errors (trace (fst (remote_mode_step env w docs p om di))) = sync_errors (trace w)"
  "post_calls (trace (fst (remote_mode_step env w docs p om di))) = post_calls (trace w)"
  by (simp_all add: remote_mode_step_def Let_def case_prod_beta split: sum.splits)


lemma snd_remote_cleanup [simp]: "snd (remote_cleanup p w) = Inr ()"
  by (simp add: remote_cleanup_def shutil_rmtree_def os_path_exists_def)

lemma mode_embed_calls:
  "embed_calls (trace (fst (remote_mode_step env w docs p om di))) =
     embed_calls (trace w) @
       (if om = ''upload'' \<or> (om = ''sync'' \<and> \<not> invalid_doc_id env di) then [docs] else [])"
  by (auto simp: remote_mode_step_def Let_def case_prod_beta split: sum.splits)

lemma body_embed_calls:
  "embed_calls (trace (fst (remote_worker_body env w sd nj u l p r sf om di))) =
     embed_calls (trace w) @
       (case remote_prefix env l sd of
          Inl e \<Rightarrow> []
        | Inr (raw_docs, tokens) \<Rightarrow>
            if om = ''upload'' \<or> (om = ''sync'' \<and> \<not> invalid_doc_id env di)
            then [map (to_langchain_format env) raw_docs] else [])"
proof (cases "remote_prefix env l sd")
  case (Inl e)
  then show ?thesis
    by (auto simp: remote_worker_body_def remote_prefix_def Let_def split: sum.splits)
next
  case (Inr x)
  obtain raw_docs tokens where x: "x = (raw_docs, tokens)" by (cases x)
  from Inr x obtain load_data chunked where
    a: "RemoteCreator_create_loader env l = Inr load_data" "load_data sd = Inr raw_docs"
       "Chunker_chunk env chunker_policy raw_docs = Inr chunked"
       "count_tokens_docs env (map (to_langchain_format env) raw_docs) = Inr tokens"
    by (auto simp: remote_prefix_def split: sum.splits)
  show ?thesis
    using Inr x a
    by (simp add: remote_worker_body_def Let_def case_prod_beta upload_index_frame
        mode_embed_calls split: sum.splits option.splits)
qed

lemma body_chunker_calls:
  "chunker_calls (trace (fst (remote_worker_body env w sd nj u l p r sf om di))) =
     chunker_calls (trace w) @
       (case RemoteCreator_create_loader env l of
          Inl e \<Rightarrow> []
        | Inr load_data \<Rightarrow>
            (case load_data sd of Inl e \<Rightarrow> [] | Inr raw_docs \<Rightarrow> [chunker_policy]))"
  by (simp add: remote_worker_body_def Let_def case_prod_beta upload_index_frame
      remote_mode_step_frame split: sum.splits option.splits)

lemma remote_worker_trace:
  "trace (fst (remote_worker env w sd nj u l d r sf om di)) =
     trace (fst (remote_worker_body env
        (emit (UpdateState 1)
           (if \<not> os_path_exists (emit (RemoteWorkerCalled (RemoteCall sd nj u l d r sf om di)) w)
                    (os_path_join d u nj)
            then os_makedirs (os_path_join d u nj)
                   (emit (RemoteWorkerCalled (RemoteCall sd nj u l d r sf om di)) w)
            else emit (RemoteWorkerCalled (RemoteCall sd nj u l d r sf om di)) w))
        sd nj u l (os_path_join d u nj) r sf om di)) @
     (case snd (remote_worker_body env
        (emit (UpdateState 1)
           (if \<not> os_path_exists (emit (RemoteWorkerCalled (RemoteCall sd nj u l d r sf om di)) w)
                    (os_path_join d u nj)
            then os_makedirs (os_path_join d u nj)
                   (emit (RemoteWorkerCalled (RemoteCall sd nj u l d r sf om di)) w)
            else emit (RemoteWorkerCalled (RemoteCall sd nj u l d r sf om di)) w))
        sd nj u l (os_path_join d u nj) r sf om di) of
        Inl e \<Rightarrow> [Log ERROR ''Error in remote_worker task'']
      | Inr x \<Rightarrow> [Log INFO ''remote_worker task completed successfully''])"
  by (simp add: remote_worker_def Let_def case_prod_beta split: sum.splits)

lemma remote_worker_snd:
  "snd (remote_worker env w sd nj u l d r sf om di) =
     (case snd (remote_worker_body env
        (emit (UpdateState 1)
           (if \<not> os_path_exists (emit (RemoteWorkerCalled (RemoteCall sd nj u l d r sf om di)) w)
                    (os_path_join d u nj)
            then os_makedirs (os_path_join d u nj)
                   (emit (RemoteWorkerCalled (RemoteCall sd nj u l d r sf om di)) w)
            else emit (RemoteWorkerCalled (RemoteCall sd nj u l d r sf om di)) w))
        sd nj u l (os_path_join d u nj) r sf om di) of
        Inl e \<Rightarrow> Inl e
      | Inr x \<Rightarrow> Inr (RemoteResult sd nj u False))"
  by (simp add: remote_worker_def Let_def case_prod_beta split: sum.splits)

lemma remote_worker_cleans:
  "fs (fst (remote_worker env w sd nj u l d r sf om di)) (os_path_join d u nj) = None"
  by (simp add: remote_worker_def remote_cleanup_def shutil_rmtree_def os_path_exists_def
      Let_def split: prod.splits sum.splits)

lemma remote_worker_embed_calls:
  "embed_calls (trace (fst (remote_worker env w sd nj u l d r sf om di))) =
     embed_calls (trace w) @
       (case remote_prefix env l sd of
          Inl e \<Rightarrow> []
        | Inr (raw_docs, tokens) \<Rightarrow>
            if om = ''upload'' \<or> (om = ''sync'' \<and> \<not> invalid_doc_id env di)
            then [map (to_langchain_format env) raw_docs] else [])"
  by (simp add: remote_worker_trace body_embed_calls split: sum.splits)

lemma remote_worker_chunker_calls:
  "chunker_calls (trace (fst (remote_worker env w sd nj u l d r sf om di))) =
     chunker_calls (trace w) @
       (case RemoteCreator_create_loader env l of
          Inl e \<Rightarrow> []
        | Inr load_data \<Rightarrow>
            (case load_data sd of Inl e \<Rightarrow> [] | Inr raw_docs \<Rightarrow> [chunker_policy]))"
  by (simp add: remote_worker_trace body_chunker_calls split: sum.splits)



lemma body_prefix_fails:
  "remote_prefix env l sd = Inl e \<Longrightarrow>
     snd (remote_worker_body env w sd nj u l p r sf om di) = Inl e"
  by (auto simp: remote_worker_body_def remote_prefix_def Let_def split: sum.splits)

lemma body_invalid_sync:
  "remote_prefix env l sd = Inr x \<Longrightarrow> invalid_doc_id env di \<Longrightarrow>
     snd (remote_worker_body env w sd nj u l p r sf ''sync'' di) =
       Inl (ValueError ''doc_id must be provided for sync operation.'')"
  by (auto simp: remote_worker_body_def remote_prefix_def remote_mode_step_def Let_def
      split: sum.splits)

lemma body_unknown_mode:
  "remote_prefix env l sd = Inr (raw_docs, tokens) \<Longrightarrow> om \<noteq> ''upload'' \<Longrightarrow> om \<noteq> ''sync'' \<Longrightarrow>
     remote_worker_body env w sd nj u l p r sf om di =
       (emits [Log INFO ''Initializing remote loader with type'', LoaderCall l sd,
               ChunkerCall chunker_policy raw_docs,
               CountTokens (map (to_langchain_format env) raw_docs),
               Log INFO ''Total tokens calculated'', UpdateState 100] w,
        Inl (UnboundLocalError ''id''))"
  by (auto simp: remote_worker_body_def remote_prefix_def remote_mode_step_def Let_def
      emit_def emits_def split: sum.splits)

lemma body_post_calls_unknown_mode:
  "om \<noteq> ''upload'' \<Longrightarrow> om \<noteq> ''sync'' \<Longrightarrow>
     post_calls (trace (fst (remote_worker_body env w sd nj u l p r sf om di))) =
       post_calls (trace w)"
  by (auto simp: remote_worker_body_def remote_mode_step_def Let_def split: sum.splits)

lemma remote_worker_post_calls_unknown_mode:
  "om \<noteq> ''upload'' \<Longrightarrow> om \<noteq> ''sync'' \<Longrightarrow>
     post_calls (trace (fst (remote_worker env w sd nj u l d r sf om di))) = post_calls (trace w)"
  by (simp add: remote_worker_trace body_post_calls_unknown_mode split: sum.splits)

section \<open>Cleanup of the working directory\<close>

text \<open>
  C6. Whatever the body of \<open>remote_worker\<close> does, and whether it returns or raises, the
  working directory does not exist when the call is over.
\<close>

theorem remote_worker_removes_directory:
  "fs (fst (remote_worker env w source_data name_job user loader directory retriever
        sync_frequency operation_mode doc_id)) (os_path_join directory user name_job) = None"
  by (rule remote_worker_cleans)

text \<open>
  C1. When the download raises a transport error, \<open>ingest_worker\<close> raises it in turn and
  the working directory is still there: the removal is the last statement of the function
  and no \<open>finally\<close> block guards it, unlike in \<open>remote_worker\<close>.
\<close>

theorem ingest_worker_download_failure_keeps_directory:
  "snd (ingest_worker (env\<lparr>requests_get := \<lambda>params. Inl (RequestException m)\<rparr>) w
          directory formats name_job filename user retriever) = Inl (RequestException m)
   \<and> fs (fst (ingest_worker (env\<lparr>requests_get := \<lambda>params. Inl (RequestException m)\<rparr>) w
          directory formats name_job filename user retriever))
        (os_path_join directory user name_job) \<noteq> None"
  by (simp add: ingest_worker_def download_file_def os_path_exists_def os_makedirs_def Let_def)

text \<open>
  A run of \<open>ingest_worker\<close> in which every step succeeds does remove the directory.
\<close>

lemma ingest_worker_success_removes_directory:
  "snd (ingest_worker env0 world0 ''temp'' [''.md''] ''job1'' ''notes.zip'' ''u1'' ''classic'') =
     Inr (IngestResult ''temp'' [''.md''] ''job1'' ''notes.zip'' ''u1'' False)
   \<and> fs (fst (ingest_worker env0 world0 ''temp'' [''.md''] ''job1'' ''notes.zip'' ''u1''
          ''classic'')) [''temp'', ''u1'', ''job1''] = None"
  by code_simp

section \<open>What the remote flow embeds\<close>

text \<open>
  C2. The documents \<open>remote_worker\<close> hands to the embedding sink are the loader's raw
  documents, converted one by one; the list the chunker returned is not among them. The
  sink is called at most once, in upload mode or in sync mode with a valid id.
\<close>

theorem remote_worker_embeds_unchunked:
  "embed_calls (trace (fst (remote_worker env w source_data name_job user loader directory
        retriever sync_frequency operation_mode doc_id))) =
     embed_calls (trace w) @
       (case remote_prefix env loader source_data of
          Inl e \<Rightarrow> []
        | Inr (raw_docs, tokens) \<Rightarrow>
            if operation_mode = ''upload''
               \<or> (operation_mode = ''sync'' \<and> \<not> invalid_doc_id env doc_id)
            then [map (to_langchain_format env) raw_docs] else [])"
  by (rule remote_worker_embed_calls)

text \<open>
  A run in which the chunker cuts the one loaded document in two: the sink receives the one
  document.
\<close>

lemma remote_worker_example:
  "embed_calls (trace (fst (remote_worker env0 world0 ''https://docs'' ''job1'' ''u1''
       ''crawler'' ''temp'' ''classic'' ''never'' ''upload'' None))) =
     [[LCDocument ''one two'' []]]
   \<and> Chunker_chunk env0 chunker_policy [Document ''one two'' []] =
       Inr [Document ''one'' [], Document ''two'' []]"
proof -
  have p: "remote_prefix env0 ''crawler'' ''https://docs'' = Inr ([Document ''one two'' []], 1)"
    by (simp add: remote_prefix_def env0_def)
  show ?thesis
    by (simp add: remote_worker_embed_calls p) (simp add: env0_def world0_def)
qed

section \<open>Sync mode without a valid id\<close>

text \<open>
  C4, as the code has it. In sync mode with a missing or invalid id the job raises, no
  embedding call is made and the working directory is removed. The error is the validation
  error when resolving the loader, loading, chunking and counting tokens all succeeded;
  otherwise it is the error of the first of those steps that failed.
\<close>

theorem sync_with_invalid_id_fails_before_embedding:
  assumes "invalid_doc_id env doc_id"
  shows "snd (remote_worker env w source_data name_job user loader directory retriever
             sync_frequency ''sync'' doc_id) =
           Inl (case remote_prefix env loader source_data of
                  Inl e \<Rightarrow> e
                | Inr x \<Rightarrow> ValueError ''doc_id must be provided for sync operation.'')
         \<and> embed_calls (trace (fst (remote_worker env w source_data name_job user loader
               directory retriever sync_frequency ''sync'' doc_id))) = embed_calls (trace w)
         \<and> fs (fst (remote_worker env w source_data name_job user loader directory retriever
               sync_frequency ''sync'' doc_id)) (os_path_join directory user name_job) = None"
proof (cases "remote_prefix env loader source_data")
  case (Inl e)
  then show ?thesis
    by (simp add: remote_worker_snd body_prefix_fails remote_worker_embed_calls
        remote_worker_cleans)
next
  case (Inr x)
  then show ?thesis using assms
    by (simp add: remote_worker_snd body_invalid_sync remote_worker_embed_calls
        remote_worker_cleans split: prod.splits)
qed

theorem sync_with_invalid_id_fails_before_embedding_witness:
  "invalid_doc_id env0 None
   \<and> snd (remote_worker env0 world0 ''https://docs'' ''job1'' ''u1'' ''crawler'' ''temp''
            ''classic'' ''daily'' ''sync'' None) =
       Inl (ValueError ''doc_id must be provided for sync operation.'')
   \<and> embed_calls (trace (fst (remote_worker env0 world0 ''https://docs'' ''job1'' ''u1''
            ''crawler'' ''temp'' ''classic'' ''daily'' ''sync'' None))) = []
   \<and> fs (fst (remote_worker env0 world0 ''https://docs'' ''job1'' ''u1'' ''crawler'' ''temp''
            ''classic'' ''daily'' ''sync'' None)) [''temp'', ''u1'', ''job1''] = None"
proof -
  have h: "invalid_doc_id env0 None" by (simp add: invalid_doc_id_def)
  have p: "remote_prefix env0 ''crawler'' ''https://docs'' = Inr ([Document ''one two'' []], 1)"
    by (simp add: remote_prefix_def env0_def)
  show ?thesis
    using sync_with_invalid_id_fails_before_embedding [OF h, of world0 "''https://docs''"
        "''job1''" "''u1''" "''crawler''" "''temp''" "''classic''" "''daily''"] h p
    by (simp add: world0_def os_path_join_def)
qed

text \<open>
  C4, as the specification states it: the job raises a validation error. With a loader
  whose fetch fails, the job raises the transport error.
\<close>

theorem sync_with_invalid_id_may_raise_transport_error:
  "invalid_doc_id env_unreachable None
   \<and> snd (remote_worker env_unreachable world0 ''https://docs'' ''job1'' ''u1'' ''crawler''
            ''temp'' ''classic'' ''daily'' ''sync'' None) = Inl (RequestException ''unreachable'')"
proof -
  have p: "remote_prefix env_unreachable ''crawler'' ''https://docs'' =
             Inl (RequestException ''unreachable'')"
    by (simp add: remote_prefix_def env_unreachable_def env0_def)
  show ?thesis
    by (simp add: invalid_doc_id_def remote_worker_snd body_prefix_fails [OF p])
qed

section \<open>An operation mode that is neither upload nor sync\<close>

text \<open>
  C10, as the code has it. With any other operation mode the job raises, no embedding call
  and no index upload is made and the working directory is removed. When resolving the
  loader, loading, chunking and counting tokens all succeeded, the error is the unbound
  \<open>id\<close> read by the payload, raised after the second progress report; otherwise it is
  the error of the first of those steps that failed.
\<close>

theorem unknown_mode_raises_on_unbound_id:
  assumes "operation_mode \<noteq> ''upload''" and "operation_mode \<noteq> ''sync''"
  shows "snd (remote_worker env w source_data name_job user loader directory retriever
             sync_frequency operation_mode doc_id) =
           Inl (case remote_prefix env loader source_data of
                  Inl e \<Rightarrow> e
                | Inr x \<Rightarrow> UnboundLocalError ''id'')
         \<and> embed_calls (trace (fst (remote_worker env w source_data name_job user loader
               directory retriever sync_frequency operation_mode doc_id))) =
             embed_calls (trace w)
         \<and> post_calls (trace (fst (remote_worker env w source_data name_job user loader
               directory retriever sync_frequency operation_mode doc_id))) =
             post_calls (trace w)
         \<and> fs (fst (remote_worker env w source_data name_job user loader directory retriever
               sync_frequency operation_mode doc_id)) (os_path_join directory user name_job) =
             None
         \<and> (case remote_prefix env loader source_data of
              Inl e \<Rightarrow> True
            | Inr (raw_docs, tokens) \<Rightarrow>
                trace (fst (remote_worker env w source_data name_job user loader directory
                   retriever sync_frequency operation_mode doc_id)) =
                  trace w @
                    [RemoteWorkerCalled (RemoteCall source_data name_job user loader directory
                       retriever sync_frequency operation_mode doc_id),
                     UpdateState 1, Log INFO ''Initializing remote loader with type'',
                     LoaderCall loader source_data, ChunkerCall chunker_policy raw_docs,
                     CountTokens (map (to_langchain_format env) raw_docs),
                     Log INFO ''Total tokens calculated'', UpdateState 100,
                     Log ERROR ''Error in remote_worker task''])"
proof -
  let ?r = "remote_worker env w source_data name_job user loader directory retriever
              sync_frequency operation_mode doc_id"
  have a: "snd ?r = Inl (case remote_prefix env loader source_data of
                           Inl e \<Rightarrow> e | Inr x \<Rightarrow> UnboundLocalError ''id'')"
  proof (cases "remote_prefix env loader source_data")
    case (Inl e)
    then show ?thesis by (simp add: remote_worker_snd body_prefix_fails)
  next
    case (Inr x)
    obtain raw_docs tokens where x: "x = (raw_docs, tokens)" by (cases x)
    show ?thesis using assms Inr x by (simp add: remote_worker_snd body_unknown_mode)
  qed
  have b: "embed_calls (trace (fst ?r)) = embed_calls (trace w)"
    using assms by (simp add: remote_worker_embed_calls split: sum.splits)
  have c: "post_calls (trace (fst ?r)) = post_calls (trace w)"
    using assms by (simp add: remote_worker_post_calls_unknown_mode)
  have d: "fs (fst ?r) (os_path_join directory user name_job) = None"
    by (rule remote_worker_cleans)
  have e: "case remote_prefix env loader source_data of
             Inl e \<Rightarrow> True
           | Inr (raw_docs, tokens) \<Rightarrow>
               trace (fst ?r) =
                 trace w @
                   [RemoteWorkerCalled (RemoteCall source_data name_job user loader directory
                      retriever sync_frequency operation_mode doc_id),
                    UpdateState 1, Log INFO ''Initializing remote loader with type'',
                    LoaderCall loader source_data, ChunkerCall chunker_policy raw_docs,
                    CountTokens (map (to_langchain_format env) raw_docs),
                    Log INFO ''Total tokens calculated'', UpdateState 100,
                    Log ERROR ''Error in remote_worker task'']"
  proof (cases "remote_prefix env loader source_data")
    case (Inl e)
    then show ?thesis by simp
  next
    case (Inr x)
    obtain raw_docs tokens where x: "x = (raw_docs, tokens)" by (cases x)
    show ?thesis using assms Inr x
      by (simp add: remote_worker_trace body_unknown_mode emits_def)
  qed
  show ?thesis using a b c d e by simp
qed

theorem unknown_mode_raises_on_unbound_id_witness:
  "''refresh'' \<noteq> ''upload'' \<and> ''refresh'' \<noteq> ''sync''
   \<and> snd (remote_worker env0 world0 ''https://docs'' ''job1'' ''u1'' ''crawler'' ''temp''
            ''classic'' ''daily'' ''refresh'' None) = Inl (UnboundLocalError ''id'')
   \<and> trace (fst (remote_worker env0 world0 ''https://docs'' ''job1'' ''u1'' ''crawler''
            ''temp'' ''classic'' ''daily'' ''refresh'' None)) =
       [RemoteWorkerCalled (RemoteCall ''https://docs'' ''job1'' ''u1'' ''crawler'' ''temp''
          ''classic'' ''daily'' ''refresh'' None),
        UpdateState 1, Log INFO ''Initializing remote loader with type'',
        LoaderCall ''crawler'' ''https://docs'',
        ChunkerCall chunker_policy [Document ''one two'' []],
        CountTokens [LCDocument ''one two'' []],
        Log INFO ''Total tokens calculated'', UpdateState 100,
        Log ERROR ''Error in remote_worker task'']
   \<and> fs (fst (remote_worker env0 world0 ''https://docs'' ''job1'' ''u1'' ''crawler'' ''temp''
            ''classic'' ''daily'' ''refresh'' None)) [''temp'', ''u1'', ''job1''] = None"
proof -
  have h1: "''refresh'' \<noteq> ''upload''" and h2: "''refresh'' \<noteq> ''sync''" by simp_all
  have p: "remote_prefix env0 ''crawler'' ''https://docs'' = Inr ([Document ''one two'' []], 1)"
    by (simp add: remote_prefix_def env0_def)
  have t: "to_langchain_format env0 = (\<lambda>d. LCDocument (doc_text d) (doc_extra_info d))"
    by (simp add: env0_def)
  show ?thesis
    using unknown_mode_raises_on_unbound_id [OF h1 h2, of env0 world0 "''https://docs''"
        "''job1''" "''u1''" "''crawler''" "''temp''" "''classic''" "''daily''" None] p t
    by (simp add: world0_def os_path_join_def)
qed

text \<open>
  C10, as stated: the job raises when it assembles the payload, after loading, chunking and
  token counting. With a loader whose fetch fails the job raises the transport error, and
  the chunker has not been called.
\<close>

theorem unknown_mode_may_raise_before_chunking:
  "snd (remote_worker env_unreachable world0 ''https://docs'' ''job1'' ''u1'' ''crawler''
          ''temp'' ''classic'' ''daily'' ''refresh'' None) = Inl (RequestException ''unreachable'')
   \<and> chunker_calls (trace (fst (remote_worker env_unreachable world0 ''https://docs'' ''job1''
          ''u1'' ''crawler'' ''temp'' ''classic'' ''daily'' ''refresh'' None))) = []"
proof -
  have p: "remote_prefix env_unreachable ''crawler'' ''https://docs'' =
             Inl (RequestException ''unreachable'')"
    by (simp add: remote_prefix_def env_unreachable_def env0_def)
  have a: "snd (remote_worker env_unreachable world0 ''https://docs'' ''job1'' ''u1'' ''crawler''
          ''temp'' ''classic'' ''daily'' ''refresh'' None) = Inl (RequestException ''unreachable'')"
    by (simp add: remote_worker_snd body_prefix_fails [OF p])
  have b: "chunker_calls (trace (fst (remote_worker env_unreachable world0 ''https://docs''
          ''job1'' ''u1'' ''crawler'' ''temp'' ''classic'' ''daily'' ''refresh'' None))) = []"
    by (simp add: remote_worker_chunker_calls) (simp add: env_unreachable_def env0_def world0_def)
  show ?thesis using a b by simp
qed

section \<open>The arguments of the chunker\<close>

lemma extract_zip_recursive_no_chunker_calls:
  "chunker_calls (snd (extract_zip_recursive c name cur mx)) = []"
  by (rule extract_events_no_calls [OF extract_zip_recursive_events])

lemma trace_extract_step:
  "chunker_calls (trace (extract_step w p filename)) = chunker_calls (trace w)"
  by (simp add: extract_step_def emits_def case_prod_beta extract_zip_recursive_no_chunker_calls
      split: option.splits)

lemma ingest_process_chunker_calls:
  "chunker_calls (trace (fst (ingest_process env w p formats))) =
     chunker_calls (trace w) @
       (case read_directory env w p formats of Inl e \<Rightarrow> [] | Inr raw_docs \<Rightarrow> [chunker_policy])"
  by (simp add: ingest_process_def Let_def case_prod_beta read_directory_def
      split: sum.splits option.splits)

lemma trace_download_file:
  "chunker_calls (trace (fst (download_file env w params dir filename))) = chunker_calls (trace w)"
  by (simp add: download_file_def Let_def split: sum.splits option.splits node.splits)

lemma trace_shutil_rmtree [simp]: "trace (fst (shutil_rmtree p w)) = trace w"
  by (simp add: shutil_rmtree_def)

lemma read_directory_emit [simp]: "read_directory env (emit e w) p formats = read_directory env w p formats"
  by (simp add: read_directory_def)

lemma ingest_worker_chunker_calls:
  "chunker_calls (trace (fst (ingest_worker env w directory formats name_job filename user retriever)))
     = chunker_calls (trace w) @
         (case ingest_prefix env w directory formats name_job filename user of
            Inl e \<Rightarrow> []
          | Inr raw_docs \<Rightarrow> [chunker_policy])"
proof -
  let ?p = "os_path_join directory user name_job"
  let ?fd = "\<lparr>fd_name = name_job, fd_file = Some filename, fd_user = user, fd_tokens = None,
             fd_retriever = None, fd_id = None, fd_type = None, fd_remote_data = None,
             fd_sync_frequency = None\<rparr>"
  let ?w0 = "emit (Log INFO ''Ingest file'') w"
  define w1 where "w1 = (if \<not> os_path_exists ?w0 ?p then os_makedirs ?p ?w0 else ?w0)"
  have t1: "chunker_calls (trace w1) = chunker_calls (trace w)"
    by (simp add: w1_def)
  obtain w2 r2 where d: "download_file env w1 ?fd ?p filename = (w2, r2)"
    by (cases "download_file env w1 ?fd ?p filename")
  have t2: "chunker_calls (trace w2) = chunker_calls (trace w)"
    using trace_download_file [of env w1 ?fd ?p filename] d t1 by simp
  have pre: "ingest_prefix env w directory formats name_job filename user =
      (case (w2, r2) of
         (w2, Inl e) \<Rightarrow> Inl e
       | (w2, Inr u) \<Rightarrow> read_directory env (extract_step w2 ?p filename) ?p formats)"
    unfolding ingest_prefix_def Let_def w1_def [symmetric] d by (rule refl)
  have unfold: "ingest_worker env w directory formats name_job filename user retriever =
      (case (w2, r2) of
         (w2, Inl e) \<Rightarrow> (w2, Inl e)
       | (w2, Inr u) \<Rightarrow>
           (let w3 = emit (UpdateState 1) (extract_step w2 ?p filename) in
            case ingest_process env w3 ?p formats of
              (w4, Inl e) \<Rightarrow> (w4, Inl e)
            | (w4, Inr (tokens, oid)) \<Rightarrow>
                (case upload_index env w4 ?p
                        (?fd\<lparr>fd_tokens := Some tokens, fd_retriever := Some retriever,
                              fd_id := Some oid, fd_type := Some ''local''\<rparr>) of
                   (w5, Inl e) \<Rightarrow> (w5, Inl e)
                 | (w5, Inr u') \<Rightarrow>
                     (case shutil_rmtree ?p w5 of
                        (w6, Inl e) \<Rightarrow> (w6, Inl e)
                      | (w6, Inr u'') \<Rightarrow>
                          (w6, Inr (IngestResult directory formats name_job filename
                                      user False))))))"
    unfolding ingest_worker_def Let_def w1_def [symmetric] d by (rule refl)
  show ?thesis
  proof (cases r2)
    case (Inl e)
    then show ?thesis using unfold pre t2 by simp
  next
    case (Inr u)
    let ?w3 = "emit (UpdateState 1) (extract_step w2 ?p filename)"
    let ?tail = "case read_directory env (extract_step w2 ?p filename) ?p formats of
                   Inl e \<Rightarrow> [] | Inr raw_docs \<Rightarrow> [chunker_policy]"
    have pre': "(case ingest_prefix env w directory formats name_job filename user of
                   Inl e \<Rightarrow> [] | Inr raw_docs \<Rightarrow> [chunker_policy]) = ?tail"
      using pre Inr by simp
    have t3: "chunker_calls (trace ?w3) = chunker_calls (trace w)"
      using t2 by (simp add: trace_extract_step)
    obtain w4 r4 where ip: "ingest_process env ?w3 ?p formats = (w4, r4)"
      by (cases "ingest_process env ?w3 ?p formats")
    have t4: "chunker_calls (trace w4) = chunker_calls (trace w) @ ?tail"
      using ingest_process_chunker_calls [of env ?w3 ?p formats] ip t3
      by simp
    show ?thesis
    proof (cases r4)
      case (Inl e)
      then show ?thesis unfolding pre' using unfold Inr ip t4 by (simp add: Let_def)
    next
      case r4: (Inr x)
      obtain tokens oid where x: "x = (tokens, oid)" by (cases x)
      let ?fd' = "?fd\<lparr>fd_tokens := Some tokens, fd_retriever := Some retriever,
                      fd_id := Some oid, fd_type := Some ''local''\<rparr>"
      obtain w5 r5 where up: "upload_index env w4 ?p ?fd' = (w5, r5)"
        by (cases "upload_index env w4 ?p ?fd'")
      have t5: "chunker_calls (trace w5) = chunker_calls (trace w4)"
        using upload_index_frame(2) [of env w4 ?p ?fd'] up by simp
      obtain w6 r6 where rm: "shutil_rmtree ?p w5 = (w6, r6)"
        by (cases "shutil_rmtree ?p w5")
      have t6: "trace w6 = trace w5"
        using trace_shutil_rmtree [of ?p w5] rm by simp
      have res: "fst (ingest_worker env w directory formats name_job filename user retriever) =
                   (case r5 of Inl e \<Rightarrow> w5 | Inr u' \<Rightarrow> w6)"
        using unfold Inr ip r4 x up rm by (simp add: Let_def split: sum.splits)
      show ?thesis unfolding pre' res using t4 t5 t6 by (simp split: sum.splits)
    qed
  qed
qed

text \<open>
  C9, as the code has it. A run of either flow calls the chunker exactly once when the steps
  before it succeed (the download and the reader in \<open>ingest_worker\<close>, the loader and its
  fetch in \<open>remote_worker\<close>) and not at all when one of them raises; every call has the
  arguments \<open>chunking_strategy="classic_chunk"\<close>, \<open>max_tokens=1250\<close>,
  \<open>min_tokens=150\<close> and \<open>duplicate_headers=False\<close>.
\<close>

theorem both_flows_pass_the_same_chunker_arguments:
  "chunker_policy =
     \<lparr>chunking_strategy = ''classic_chunk'', max_tokens = 1250, min_tokens = 150,
      duplicate_headers = False\<rparr>
   \<and> chunker_calls (trace (fst (ingest_worker env w directory formats name_job filename user
          retriever))) =
       chunker_calls (trace w) @
         (case ingest_prefix env w directory formats name_job filename user of
            Inl e \<Rightarrow> []
          | Inr raw_docs \<Rightarrow> [chunker_policy])
   \<and> chunker_calls (trace (fst (remote_worker env w source_data name_job user loader directory
          retriever sync_frequency operation_mode doc_id))) =
       chunker_calls (trace w) @
         (case RemoteCreator_create_loader env loader of
            Inl e \<Rightarrow> []
          | Inr load_data \<Rightarrow>
              (case load_data source_data of Inl e \<Rightarrow> [] | Inr raw_docs \<Rightarrow> [chunker_policy]))"
  using ingest_worker_chunker_calls [of env w directory formats name_job filename user retriever]
    remote_worker_chunker_calls [of env w source_data name_job user loader directory retriever
      sync_frequency operation_mode doc_id]
  by (simp add: chunker_policy_def MAX_TOKENS_def MIN_TOKENS_def)

text \<open>
  In \<open>env0\<close> the steps before the chunker succeed in \<open>ingest_worker\<close>, and the run
  makes its one call.
\<close>

lemma ingest_prefix_example:
  "ingest_prefix env0 world0 ''temp'' [''.md''] ''job1'' ''notes.zip'' ''u1'' =
     Inr [Document ''one two'' [(''title'', ''a.md'')]]"
  by code_simp

lemma ingest_worker_example_chunker_call:
  "chunker_calls (trace (fst (ingest_worker env0 world0 ''temp'' [''.md''] ''job1'' ''notes.zip''
       ''u1'' ''classic''))) = [chunker_policy]"
  by code_simp

text \<open>
  C9, as the specification states it: the chunker is invoked on every run with the strategy
  "classic". In the runs of both flows that reach the chunker the strategy passed is
  \<open>classic_chunk\<close>, and a run of \<open>ingest_worker\<close> whose download fails never invokes
  the chunker.
\<close>

theorem chunker_strategy_is_classic_chunk:
  "\<not> list_all (\<lambda>a. chunking_strategy a = ''classic'')
       (chunker_calls (trace (fst (remote_worker env0 world0 ''https://docs'' ''job1'' ''u1''
          ''crawler'' ''temp'' ''classic'' ''never'' ''upload'' None))))
   \<and> map chunking_strategy
       (chunker_calls (trace (fst (remote_worker env0 world0 ''https://docs'' ''job1'' ''u1''
          ''crawler'' ''temp'' ''classic'' ''never'' ''upload'' None)))) = [''classic_chunk'']
   \<and> map chunking_strategy
       (chunker_calls (trace (fst (ingest_worker env0 world0 ''temp'' [''.md''] ''job1''
          ''notes.zip'' ''u1'' ''classic'')))) = [''classic_chunk'']
   \<and> chunker_calls (trace (fst (ingest_worker env_offline world0 ''temp'' [''.md''] ''job1''
          ''notes.zip'' ''u1'' ''classic''))) = []"
  by code_simp

section \<open>attachment_worker returns its failures\<close>

lemma file_exists_emit [simp]: "file_exists (emit e w) d f = file_exists w d f"
  by (simp add: file_exists_def)

lemma read_file_emit [simp]: "read_file env (emit e w) d f = read_file env w d f"
  by (simp add: read_file_def)

lemma attachments_emit [simp]: "attachments_collection (emit e w) = attachments_collection w"
  by (simp add: emit_def)

lemma oid_counter_emit [simp]: "oid_counter (emit e w) = oid_counter w"
  by (simp add: emit_def)

lemma attachment_try_result:
  "snd (attachment_try env w directory user folder_name filename) =
     (case read_file env w directory filename of
        Inl e \<Rightarrow> Inl e
      | Inr [] \<Rightarrow> Inr (AttachmentError ''No content was extracted from the file'')
      | Inr (d # ds) \<Rightarrow>
          (case num_tokens_from_string env (doc_text d) of
             Inl e \<Rightarrow> Inl e
           | Inr token_count \<Rightarrow>
               (case insert_one_error env
                       \<lparr>att_user = user,
                        att_path = user @ ''/attachments/'' @ folder_name @ ''/'' @ filename,
                        att_content = doc_text d, att_token_count = token_count,
                        att_date = datetime_now env\<rparr> of
                  Some e \<Rightarrow> Inl e
                | None \<Rightarrow>
                    Inr (AttachmentStored (Minted (oid_counter w)) filename folder_name
                           (user @ ''/attachments/'' @ folder_name @ ''/'' @ filename)
                           token_count))))"
  by (simp add: attachment_try_def Let_def new_oid_def split: sum.splits list.splits option.splits)

lemma attachment_try_collection:
  "attachments_collection (fst (attachment_try env w directory user folder_name filename)) =
     attachments_collection w @
     (case snd (attachment_try env w directory user folder_name filename) of
        Inr (AttachmentStored oid fname folder path token_count) \<Rightarrow>
          [(oid, \<lparr>att_user = user, att_path = path,
                  att_content = (case read_file env w directory filename of
                                   Inr (d # ds) \<Rightarrow> doc_text d | _ \<Rightarrow> []),
                  att_token_count = token_count, att_date = datetime_now env\<rparr>)]
      | _ \<Rightarrow> [])"
  by (simp add: attachment_try_def Let_def new_oid_def bump_oid_def
      split: sum.splits list.splits option.splits)

lemma attachment_worker_unfold:
  assumes "file_info ''folder'' = Some folder_name"
      and "file_info ''filename'' = Some filename"
      and "attachment_try env
             (emit (Log INFO ''Processing file'')
               (emit (UpdateState 10) (emit (Log INFO ''Processing attachment'') w)))
             directory user folder_name filename = (w3, r3)"
  shows "attachment_worker env w directory file_info user =
           (if \<not> file_exists w directory filename then
              (emit (Log WARNING ''File not found'')
                 (emit (Log INFO ''Processing file'')
                   (emit (UpdateState 10) (emit (Log INFO ''Processing attachment'') w))),
               Inr (AttachmentError ''File not found''))
            else case r3 of
                   Inl e \<Rightarrow>
                     (emit (Log ERROR ''Error processing file'') w3,
                      Inr (AttachmentError (''Error processing file: '' @ error_message e)))
                 | Inr r \<Rightarrow> (w3, Inr r))"
  using assms by (simp add: attachment_worker_def Let_def split: sum.splits)

text \<open>
  C8, as the code has it. When \<open>file_info\<close> has the two keys \<open>folder\<close> and
  \<open>filename\<close> that its docstring names, \<open>attachment_worker\<close> never raises: it returns
  the error value when the file is absent, when the reader yields no document and when
  anything raises while the file is processed; otherwise it stores one record (user,
  relative path, text of the first document the reader yields, token count of that text,
  date) and returns its id with the filename, folder, path and token count. The collection
  grows by that record and by nothing else.
\<close>

theorem attachment_worker_returns_a_result:
  assumes "file_info ''folder'' = Some folder_name"
      and "file_info ''filename'' = Some filename"
  shows "snd (attachment_worker env w directory file_info user) =
           Inr (if \<not> file_exists w directory filename then AttachmentError ''File not found''
                else case read_file env w directory filename of
                  Inl e \<Rightarrow> AttachmentError (''Error processing file: '' @ error_message e)
                | Inr [] \<Rightarrow> AttachmentError ''No content was extracted from the file''
                | Inr (d # ds) \<Rightarrow>
                    (case num_tokens_from_string env (doc_text d) of
                       Inl e \<Rightarrow> AttachmentError (''Error processing file: '' @ error_message e)
                     | Inr token_count \<Rightarrow>
                         (case insert_one_error env
                                 \<lparr>att_user = user,
                                  att_path = user @ ''/attachments/'' @ folder_name @ ''/''
                                             @ filename,
                                  att_content = doc_text d, att_token_count = token_count,
                                  att_date = datetime_now env\<rparr> of
                            Some e \<Rightarrow>
                              AttachmentError (''Error processing file: '' @ error_message e)
                          | None \<Rightarrow>
                              AttachmentStored (Minted (oid_counter w)) filename folder_name
                                (user @ ''/attachments/'' @ folder_name @ ''/'' @ filename)
                                token_count)))
         \<and> attachments_collection (fst (attachment_worker env w directory file_info user)) =
             attachments_collection w @
               (case snd (attachment_worker env w directory file_info user) of
                  Inr (AttachmentStored oid fname folder path token_count) \<Rightarrow>
                    [(oid, \<lparr>att_user = user, att_path = path,
                            att_content = (case read_file env w directory filename of
                                             Inr (d # ds) \<Rightarrow> doc_text d | _ \<Rightarrow> []),
                            att_token_count = token_count, att_date = datetime_now env\<rparr>)]
                | _ \<Rightarrow> [])"
proof -
  let ?w2 = "emit (Log INFO ''Processing file'')
               (emit (UpdateState 10) (emit (Log INFO ''Processing attachment'') w))"
  obtain w3 r3 where t: "attachment_try env ?w2 directory user folder_name filename = (w3, r3)"
    by (cases "attachment_try env ?w2 directory user folder_name filename")
  note u = attachment_worker_unfold [OF assms t]
  have r: "r3 = snd (attachment_try env ?w2 directory user folder_name filename)"
    and w: "w3 = fst (attachment_try env ?w2 directory user folder_name filename)"
    using t by simp_all
  have r3: "r3 =
     (case read_file env w directory filename of
        Inl e \<Rightarrow> Inl e
      | Inr [] \<Rightarrow> Inr (AttachmentError ''No content was extracted from the file'')
      | Inr (d # ds) \<Rightarrow>
          (case num_tokens_from_string env (doc_text d) of
             Inl e \<Rightarrow> Inl e
           | Inr token_count \<Rightarrow>
               (case insert_one_error env
                       \<lparr>att_user = user,
                        att_path = user @ ''/attachments/'' @ folder_name @ ''/'' @ filename,
                        att_content = doc_text d, att_token_count = token_count,
                        att_date = datetime_now env\<rparr> of
                  Some e \<Rightarrow> Inl e
                | None \<Rightarrow>
                    Inr (AttachmentStored (Minted (oid_counter w)) filename folder_name
                           (user @ ''/attachments/'' @ folder_name @ ''/'' @ filename)
                           token_count))))"
    unfolding r attachment_try_result
    by (simp split: sum.splits list.splits option.splits)
  have c3: "attachments_collection w3 =
     attachments_collection w @
     (case r3 of
        Inr (AttachmentStored oid fname folder path token_count) \<Rightarrow>
          [(oid, \<lparr>att_user = user, att_path = path,
                  att_content = (case read_file env w directory filename of
                                   Inr (d # ds) \<Rightarrow> doc_text d | _ \<Rightarrow> []),
                  att_token_count = token_count, att_date = datetime_now env\<rparr>)]
      | _ \<Rightarrow> [])"
    unfolding r w attachment_try_collection
    by (simp split: sum.splits list.splits option.splits attachment_result.splits)
  show ?thesis
  proof (cases "file_exists w directory filename")
    case False
    then show ?thesis unfolding u by simp
  next
    case True
    show ?thesis
    proof (cases r3)
      case (Inl e)
      then show ?thesis
        unfolding u using True r3 c3
        by (auto split: sum.splits list.splits option.splits)
    next
      case (Inr x)
      then show ?thesis
        unfolding u using True r3 c3
        by (auto split: sum.splits list.splits option.splits attachment_result.splits)
    qed
  qed
qed

theorem attachment_worker_returns_a_result_witness:
  "file_info_a ''folder'' = Some ''f1'' \<and> file_info_a ''filename'' = Some ''a.txt''
   \<and> snd (attachment_worker env0 world_inputs ''inputs'' file_info_a ''u1'') =
       Inr (AttachmentStored (Minted 0) ''a.txt'' ''f1'' ''u1/attachments/f1/a.txt'' 5)
   \<and> attachments_collection (fst (attachment_worker env0 world_inputs ''inputs'' file_info_a ''u1'')) =
       [(Minted 0, \<lparr>att_user = ''u1'', att_path = ''u1/attachments/f1/a.txt'',
                    att_content = ''hello'', att_token_count = 5, att_date = 0\<rparr>)]"
proof -
  have h1: "file_info_a ''folder'' = Some ''f1''" and h2: "file_info_a ''filename'' = Some ''a.txt''"
    by (simp_all add: file_info_a_def)
  have e: "file_exists world_inputs ''inputs'' ''a.txt''"
    by (simp add: file_exists_def world_inputs_def world0_def)
  have rd: "read_file env0 world_inputs ''inputs'' ''a.txt'' = Inr [Document ''hello'' []]"
    by (simp add: read_file_def world_inputs_def world0_def env0_def)
  have n: "num_tokens_from_string env0 ''hello'' = Inr 5" "insert_one_error env0 = (\<lambda>a. None)"
    "datetime_now env0 = 0" "oid_counter world_inputs = 0" "attachments_collection world_inputs = []"
    by (simp_all add: env0_def world_inputs_def world0_def)
  show ?thesis
    using attachment_worker_returns_a_result [OF h1 h2, of env0 world_inputs "''inputs''" "''u1''"]
      h1 h2 e rd n
    by simp
qed

text \<open>
  C8, as the specification states it: the record holds the full text. When the reader
  yields two documents for the file, the record holds the text of the first and the text of
  the second is stored nowhere.
\<close>

theorem attachment_worker_stores_first_document_only:
  "read_file env_two_pages world_inputs ''inputs'' ''a.txt'' =
     Inr [Document ''page one'' [], Document ''page two'' []]
   \<and> snd (attachment_worker env_two_pages world_inputs ''inputs'' file_info_a ''u1'') =
       Inr (AttachmentStored (Minted 0) ''a.txt'' ''f1'' ''u1/attachments/f1/a.txt'' 8)
   \<and> map (\<lambda>a. att_content (snd a))
       (attachments_collection
          (fst (attachment_worker env_two_pages world_inputs ''inputs'' file_info_a ''u1''))) =
       [''page one'']"
  by code_simp

text \<open>
  The two subscripts \<open>file_info["folder"]\<close> and \<open>file_info["filename"]\<close> come before
  the \<open>try\<close> statement: a dictionary without the key \<open>folder\<close>, which the docstring
  does not allow for, raises \<open>KeyError\<close>.
\<close>

lemma attachment_worker_without_folder_key:
  "snd (attachment_worker env0 world_inputs ''inputs'' Map.empty ''u1'') = Inl (KeyError ''folder'')"
  by (simp add: attachment_worker_def)

section \<open>The counters of sync_worker\<close>






text \<open>
  A run over four sources, three of them due and the loader of one failing: all three jobs
  are invoked, the failure is counted, and the source that is not due is left alone.
\<close>

lemma sync_worker_example:
  "snd (sync_worker env0 world_sources ''daily'') =
     [(''total_sync_count'', 3), (''sync_success'', 2), (''sync_failure'', 1)]"
  by code_simp

lemma sync_worker_example_calls:
  "map (\<lambda>c. case c of RemoteCall sd nj u l d r sf om di \<Rightarrow> (nj, om))
       (remote_calls (trace (fst (sync_worker env0 world_sources ''daily'')))) =
     [(''site'', ''sync''), (''feed'', ''sync''), (''blog'', ''sync'')]"
  by code_simp

end
